theory Spec2Isabelle
  imports Complex_Main "HOL-Library.FSet"
begin

section \<open>Floating-point cells\<close>

text \<open>
  The screening engine of \<^verbatim>\<open>trigger_batch.py\<close> computes on pandas columns of
  float64 and int64 values. A float cell is modelled as an exact real number or one of
  the three special values of IEEE arithmetic that the code can produce: not-a-number
  (a missing value, or \<^verbatim>\<open>0/0\<close>) and the two infinities (\<^verbatim>\<open>x/0\<close>). Rounding
  and overflow of finite values are not modelled. An int64 cell is an unbounded
  integer.
\<close>

datatype fval = NaN | NInf | Fin real | PInf

text \<open>The comparisons of IEEE floats: every comparison with NaN is false.\<close>

fun flt :: "fval \<Rightarrow> fval \<Rightarrow> bool" where
  "flt NaN b = False"
| "flt a NaN = False"
| "flt a NInf = False"
| "flt NInf b = True"
| "flt PInf b = False"
| "flt (Fin x) PInf = True"
| "flt (Fin x) (Fin y) = (x < y)"

fun fle :: "fval \<Rightarrow> fval \<Rightarrow> bool" where
  "fle NaN b = False"
| "fle a NaN = False"
| "fle NInf b = True"
| "fle a PInf = True"
| "fle PInf b = False"
| "fle (Fin x) NInf = False"
| "fle (Fin x) (Fin y) = (x \<le> y)"

definition fgt :: "fval \<Rightarrow> fval \<Rightarrow> bool" where
  "fgt a b = flt b a"

definition fge :: "fval \<Rightarrow> fval \<Rightarrow> bool" where
  "fge a b = fle b a"

section \<open>Tables\<close>

text \<open>
  The columns of the working tables. The six columns of a daily snapshot are fields of
  a row; the columns a pipeline adds are named by this datatype. The source names them
  in Korean; each constructor stands for one source column:
  \<^item> \<open>Opening\<close> siga, \<open>High\<close> goga, \<open>Low\<close> jeoga, \<open>Closing\<close> jongga,
    \<open>Volume\<close> georaeryang, \<open>TradeValue\<close> georaedaegeum (the snapshot columns);
  \<^item> \<open>VolumeRatio\<close> georaeryang-biyul, \<open>VolumeGrowthPct\<close> georaeryang-jeunggayul,
    \<open>IntradayChangePct\<close> jangjung-deungnangnyul,
    \<open>DayOverDayChangePct\<close> jeonil-daebi-deungnangnyul,
    \<open>Rising\<close> sangseung-yeobu, \<open>GapPct\<close> gaep-sangseungnyul,
    \<open>RiseContinues\<close> sangseung-jisok, \<open>TotalMomentum\<close> jonghap-momenteom,
    \<open>MarketCap\<close> siga-chongaek, \<open>ValueToCapPct\<close> georaedaegeum-biyul,
    \<open>ClosingStrength\<close> magam-gangdo, \<open>VolumeUp\<close> georaeryang-jeungga,
    \<open>Sideways\<close> hoengbo-yeobu, \<open>CompositeScore\<close> bokhap-jeomsu,
    \<open>StockName\<close> jongmongmyeong;
  \<^item> \<open>Norm c\<close> is the column named by the source's f-string \<^verbatim>\<open>f"{col}_norm"\<close>.
\<close>

datatype column =
    Opening | High | Low | Closing | Volume | TradeValue
  | VolumeRatio | VolumeGrowthPct | IntradayChangePct | DayOverDayChangePct
  | Rising | GapPct | RiseContinues | TotalMomentum | MarketCap | ValueToCapPct
  | ClosingStrength | VolumeUp | Sideways | CompositeScore | StockName
  | Norm column

datatype cell = FloatC fval | IntC int | BoolC bool | StrC string

text \<open>
  A keyed collection that keeps the order in which its keys were added (a Python dict,
  the cells of a row) is an association list. The assignment \<^verbatim>\<open>d[k] = v\<close>
  replaces the value of a key that is present and appends a new key at the end.
\<close>

fun dict_set :: "'k \<Rightarrow> 'v \<Rightarrow> ('k \<times> 'v) list \<Rightarrow> ('k \<times> 'v) list" where
  "dict_set k v [] = [(k, v)]"
| "dict_set k v (p # ps) = (if fst p = k then (k, v) # ps else p # dict_set k v ps)"

text \<open>
  A row is indexed by its ticker. The snapshot columns are int64 columns that every
  table of the program carries (\<^verbatim>\<open>get_snapshot\<close> documents them), so they are
  fields; \<open>cells\<close> holds the columns added later.
\<close>

record row =
  ticker :: string
  open_px :: int
  high_px :: int
  low_px :: int
  close_px :: int
  volume :: int
  trade_value :: int
  cells :: "(column \<times> cell) list"

text \<open>
  A DataFrame: the added columns in the order of their creation, and the rows in index
  order. \<^verbatim>\<open>pd.DataFrame()\<close> is the table with neither.
\<close>

record frame =
  columns :: "column list"
  rows :: "row list"

definition empty_frame :: frame where
  "empty_frame = \<lparr>columns = [], rows = []\<rparr>"

definition index :: "frame \<Rightarrow> string list" where
  "index df = map ticker (rows df)"

text \<open>\<^verbatim>\<open>df.empty\<close>\<close>

definition is_empty :: "frame \<Rightarrow> bool" where
  "is_empty df = (rows df = [])"

text \<open>
  Reading a numeric cell \<^verbatim>\<open>df.loc[ticker, col]\<close> of a row; an int64 value reads as
  the float of the same value. A cell that a row does not hold reads as NaN, which is
  how pandas fills a value that is missing after an alignment or a concatenation.
\<close>

fun num :: "row \<Rightarrow> column \<Rightarrow> fval" where
  "num r Opening = Fin (real_of_int (open_px r))"
| "num r High = Fin (real_of_int (high_px r))"
| "num r Low = Fin (real_of_int (low_px r))"
| "num r Closing = Fin (real_of_int (close_px r))"
| "num r Volume = Fin (real_of_int (volume r))"
| "num r TradeValue = Fin (real_of_int (trade_value r))"
| "num r c = (case map_of (cells r) c of Some (FloatC x) \<Rightarrow> x
              | Some (IntC i) \<Rightarrow> Fin (real_of_int i) | _ \<Rightarrow> NaN)"

text \<open>\<^verbatim>\<open>df.loc[[ticker]]\<close>: the rows labelled by the ticker, as a table.\<close>

definition loc :: "frame \<Rightarrow> string \<Rightarrow> frame" where
  "loc df t = df\<lparr>rows := filter (\<lambda>r. ticker r = t) (rows df)\<rparr>"

text \<open>\<^verbatim>\<open>pd.concat([a, b])\<close>: the rows of both, under the union of the columns.\<close>

definition concat_frames :: "frame \<Rightarrow> frame \<Rightarrow> frame" where
  "concat_frames a b =
     \<lparr>columns = columns a @ filter (\<lambda>c. c \<notin> set (columns a)) (columns b),
      rows = rows a @ rows b\<rparr>"

section \<open>Float arithmetic\<close>

text \<open>
  IEEE arithmetic on the special values. A zero carries no sign: every divisor in the
  code is an int64 column or a positive range, whose zero is the positive one.
\<close>

fun fneg :: "fval \<Rightarrow> fval" where
  "fneg NaN = NaN"
| "fneg NInf = PInf"
| "fneg PInf = NInf"
| "fneg (Fin x) = Fin (- x)"

fun fadd :: "fval \<Rightarrow> fval \<Rightarrow> fval" where
  "fadd NaN b = NaN"
| "fadd a NaN = NaN"
| "fadd PInf NInf = NaN"
| "fadd NInf PInf = NaN"
| "fadd PInf b = PInf"
| "fadd a PInf = PInf"
| "fadd NInf b = NInf"
| "fadd a NInf = NInf"
| "fadd (Fin x) (Fin y) = Fin (x + y)"

definition fsub :: "fval \<Rightarrow> fval \<Rightarrow> fval" where
  "fsub a b = fadd a (fneg b)"

text \<open>The sign of a float that is not NaN, as an integer.\<close>

fun fsign :: "fval \<Rightarrow> int" where
  "fsign NaN = 0"
| "fsign NInf = - 1"
| "fsign PInf = 1"
| "fsign (Fin x) = (if 0 < x then 1 else if x < 0 then - 1 else 0)"

definition signed_inf :: "int \<Rightarrow> fval" where
  "signed_inf s = (if 0 < s then PInf else if s < 0 then NInf else NaN)"

fun fmul :: "fval \<Rightarrow> fval \<Rightarrow> fval" where
  "fmul NaN b = NaN"
| "fmul a NaN = NaN"
| "fmul (Fin x) (Fin y) = Fin (x * y)"
| "fmul a b = signed_inf (fsign a * fsign b)"

fun fdiv :: "fval \<Rightarrow> fval \<Rightarrow> fval" where
  "fdiv NaN b = NaN"
| "fdiv a NaN = NaN"
| "fdiv (Fin x) (Fin y) = (if y \<noteq> 0 then Fin (x / y) else signed_inf (fsign (Fin x)))"
| "fdiv (Fin x) b = Fin 0"
| "fdiv a (Fin y) = (if 0 \<le> y then a else fneg a)"
| "fdiv a b = NaN"

fun fabs :: "fval \<Rightarrow> fval" where
  "fabs NaN = NaN"
| "fabs NInf = PInf"
| "fabs PInf = PInf"
| "fabs (Fin x) = Fin \<bar>x\<bar>"

section \<open>Sorting\<close>

text \<open>
  A stable sort in descending order of a float key, by insertion: an element goes in
  front of the first later element that is not strictly before it. \<open>in_front a b\<close> says
  that key \<open>a\<close> sorts strictly in front of key \<open>b\<close>.
\<close>

fun insort_desc :: "(fval \<Rightarrow> fval \<Rightarrow> bool) \<Rightarrow> ('a \<Rightarrow> fval) \<Rightarrow> 'a \<Rightarrow> 'a list \<Rightarrow> 'a list" where
  "insort_desc in_front k x [] = [x]"
| "insort_desc in_front k x (y # ys) =
     (if in_front (k y) (k x) then y # insort_desc in_front k x ys else x # y # ys)"

definition sort_desc :: "(fval \<Rightarrow> fval \<Rightarrow> bool) \<Rightarrow> ('a \<Rightarrow> fval) \<Rightarrow> 'a list \<Rightarrow> 'a list" where
  "sort_desc in_front k xs = foldr (insort_desc in_front k) xs []"

text \<open>
  Python's \<^verbatim>\<open>list.sort(key=..., reverse=True)\<close> is stable and compares keys with
  \<^verbatim>\<open><\<close> only. On keys without NaN it is this sort; with a NaN key the order Python
  produces depends on the run structure of the list and is not modelled.
\<close>

definition py_sort_desc :: "('a \<Rightarrow> fval) \<Rightarrow> 'a list \<Rightarrow> 'a list" where
  "py_sort_desc k xs = sort_desc (\<lambda>a b. flt b a) k xs"

section \<open>Column operations\<close>

text \<open>\<^verbatim>\<open>df[col]\<close> as a list of floats, in row order.\<close>

definition col :: "frame \<Rightarrow> column \<Rightarrow> fval list" where
  "col df c = map (\<lambda>r. num r c) (rows df)"

text \<open>
  \<^verbatim>\<open>Series.max()\<close> and \<^verbatim>\<open>Series.min()\<close> skip NaN and are NaN when nothing is
  left; \<^verbatim>\<open>Series.mean()\<close> of an int64 column is NaN on the empty column.
\<close>

definition col_max :: "fval list \<Rightarrow> fval" where
  "col_max xs =
     (case filter (\<lambda>x. x \<noteq> NaN) xs of
        [] \<Rightarrow> NaN
      | y # ys \<Rightarrow> foldl (\<lambda>a b. if flt a b then b else a) y ys)"

definition col_min :: "fval list \<Rightarrow> fval" where
  "col_min xs =
     (case filter (\<lambda>x. x \<noteq> NaN) xs of
        [] \<Rightarrow> NaN
      | y # ys \<Rightarrow> foldl (\<lambda>a b. if flt b a then b else a) y ys)"

definition int_mean :: "int list \<Rightarrow> fval" where
  "int_mean xs =
     (if xs = [] then NaN else Fin (real_of_int (sum_list xs) / real (length xs)))"

text \<open>
  \<^verbatim>\<open>df[c] = ...\<close> with a value computed row by row: the column is appended to the
  columns when it is new, and every row gets its cell.
\<close>

definition set_col :: "column \<Rightarrow> (row \<Rightarrow> cell) \<Rightarrow> frame \<Rightarrow> frame" where
  "set_col c f df =
     \<lparr>columns = (if c \<in> set (columns df) then columns df else columns df @ [c]),
      rows = map (\<lambda>r. r\<lparr>cells := dict_set c (f r) (cells r)\<rparr>) (rows df)\<rparr>"

text \<open>\<^verbatim>\<open>df[mask]\<close> with a mask computed row by row.\<close>

definition where_rows :: "(row \<Rightarrow> bool) \<Rightarrow> frame \<Rightarrow> frame" where
  "where_rows p df = df\<lparr>rows := filter p (rows df)\<rparr>"

text \<open>\<^verbatim>\<open>df.head(n)\<close>\<close>

definition head :: "nat \<Rightarrow> frame \<Rightarrow> frame" where
  "head n df = df\<lparr>rows := take n (rows df)\<rparr>"

text \<open>
  \<^verbatim>\<open>df.sort_values(c, ascending=False)\<close>: descending, NaN last. The sort is
  taken to be stable, as the specification states it.
\<close>

definition nan_last :: "fval \<Rightarrow> fval \<Rightarrow> bool" where
  "nan_last a b = (a \<noteq> NaN \<and> (b = NaN \<or> flt b a))"

definition sort_values_desc :: "column \<Rightarrow> frame \<Rightarrow> frame" where
  "sort_values_desc c df = df\<lparr>rows := sort_desc nan_last (\<lambda>r. num r c) (rows df)\<rparr>"

text \<open>A boolean cell; \<^verbatim>\<open>df[c] == True\<close> is false where the cell is not a boolean.\<close>

definition flag :: "row \<Rightarrow> column \<Rightarrow> bool" where
  "flag r c = (case map_of (cells r) c of Some (BoolC b) \<Rightarrow> b | _ \<Rightarrow> False)"

text \<open>
  \<^verbatim>\<open>a.index.intersection(b.index)\<close> for indexes without repeated labels: the labels
  of \<open>a\<close> that \<open>b\<close> has, in the order of \<open>a\<close>.
\<close>

definition intersection :: "string list \<Rightarrow> string list \<Rightarrow> string list" where
  "intersection a b = filter (\<lambda>t. t \<in> set b) a"

text \<open>\<^verbatim>\<open>df.loc[labels]\<close>: for each label in turn, the rows it labels.\<close>

definition loc_list :: "frame \<Rightarrow> string list \<Rightarrow> frame" where
  "loc_list df labels =
     df\<lparr>rows := concat (map (\<lambda>t. filter (\<lambda>r. ticker r = t) (rows df)) labels)\<rparr>"

text \<open>
  The value of column \<open>c\<close> of table \<open>prev\<close> at the label of row \<open>r\<close>. Arithmetic
  between two columns aligns them on the index; a label that \<open>prev\<close> lacks gives NaN.
\<close>

definition aligned :: "frame \<Rightarrow> column \<Rightarrow> row \<Rightarrow> fval" where
  "aligned prev c r =
     (case find (\<lambda>p. ticker p = ticker r) (rows prev) of Some p \<Rightarrow> num p c | None \<Rightarrow> NaN)"

text \<open>\<^verbatim>\<open>Series.replace(0, np.nan)\<close>\<close>

definition replace_zero :: "fval \<Rightarrow> fval" where
  "replace_zero x = (if x = Fin 0 then NaN else x)"

section \<open>Filters and scoring\<close>

text \<open>\<^verbatim>\<open>apply_absolute_filters(df, min_value)\<close>, lines 85 to 99.\<close>

definition apply_absolute_filters :: "int \<Rightarrow> frame \<Rightarrow> frame" where
  "apply_absolute_filters min_value df =
     (let filtered_df = where_rows (\<lambda>r. min_value \<le> trade_value r) df;
          avg_volume = int_mean (map volume (rows df));
          min_volume = fmul avg_volume (Fin (2 / 10))
      in where_rows (\<lambda>r. fge (num r Volume) min_volume) filtered_df)"

text \<open>
  Min-max normalisation of one value of a column, lines 117 to 128 (and the same
  statements in the loops at lines 236 to 240, 356 to 360 and 464 to 468): the range
  is \<^verbatim>\<open>max - min if max > min else 1\<close>.
\<close>

definition col_range :: "fval list \<Rightarrow> fval" where
  "col_range xs =
     (if fgt (col_max xs) (col_min xs) then fsub (col_max xs) (col_min xs) else Fin 1)"

definition min_max_norm :: "fval list \<Rightarrow> fval \<Rightarrow> fval" where
  "min_max_norm xs x = fdiv (fsub x (col_min xs)) (col_range xs)"

text \<open>\<^verbatim>\<open>df[f"{c}_norm"] = (df[c] - c_min) / c_range\<close>\<close>

definition normalize_col :: "column \<Rightarrow> frame \<Rightarrow> frame" where
  "normalize_col c df = set_col (Norm c) (\<lambda>r. FloatC (min_max_norm (col df c) (num r c))) df"

text \<open>
  \<^verbatim>\<open>normalize_and_score(df, ratio_col, abs_col, ratio_weight, abs_weight)\<close>, lines 101
  to 134. Every call leaves \<^verbatim>\<open>ascending\<close> at its default \<^verbatim>\<open>False\<close>.
\<close>

definition normalize_and_score :: "frame \<Rightarrow> column \<Rightarrow> column \<Rightarrow> real \<Rightarrow> real \<Rightarrow> frame" where
  "normalize_and_score df ratio_col abs_col ratio_weight abs_weight =
     (if is_empty df then df
      else
        let ratio_values = col df ratio_col;
            abs_values = col df abs_col;
            df = set_col (Norm ratio_col) (\<lambda>r. FloatC (min_max_norm ratio_values (num r ratio_col))) df;
            df = set_col (Norm abs_col) (\<lambda>r. FloatC (min_max_norm abs_values (num r abs_col))) df;
            df = set_col CompositeScore
                   (\<lambda>r. FloatC (fadd (fmul (num r (Norm ratio_col)) (Fin ratio_weight))
                                      (fmul (num r (Norm abs_col)) (Fin abs_weight)))) df
        in sort_values_desc CompositeScore df)"

text \<open>A weighted sum of three normalised columns, lines 243 to 247, 363 to 367, 471 to 475.\<close>

definition score3 :: "column \<Rightarrow> real \<Rightarrow> column \<Rightarrow> real \<Rightarrow> column \<Rightarrow> real \<Rightarrow> frame \<Rightarrow> frame" where
  "score3 c1 w1 c2 w2 c3 w3 df =
     set_col CompositeScore
       (\<lambda>r. FloatC (fadd (fadd (fmul (num r (Norm c1)) (Fin w1)) (fmul (num r (Norm c2)) (Fin w2)))
                          (fmul (num r (Norm c3)) (Fin w3)))) df"

section \<open>Ticker names\<close>

text \<open>
  The failures of the program. \<open>NoOhlcvData d\<close> and \<open>NoMarketCapData d\<close> are the
  \<^verbatim>\<open>ValueError\<close>s that the getters raise for a date \<open>d\<close> without rows;
  \<open>LookupFailed t\<close> is whatever the provider's name lookup raises for ticker \<open>t\<close>.
\<close>

datatype error = NoOhlcvData string | NoMarketCapData string | LookupFailed string

text \<open>
  \<^verbatim>\<open>enhance_dataframe(df)\<close>, lines 136 to 142. The provider's
  \<^verbatim>\<open>get_market_ticker_name\<close> is a parameter; \<open>None\<close> is a call that raises.
  \<^verbatim>\<open>df.index.map\<close> calls it on the tickers in order, so the first failure is the
  one that propagates.
\<close>

fun lookup_names :: "(string \<Rightarrow> string option) \<Rightarrow> row list \<Rightarrow> error + row list" where
  "lookup_names ticker_name [] = Inr []"
| "lookup_names ticker_name (r # rs) =
     (case ticker_name (ticker r) of
        None \<Rightarrow> Inl (LookupFailed (ticker r))
      | Some name \<Rightarrow>
          (case lookup_names ticker_name rs of
             Inl e \<Rightarrow> Inl e
           | Inr rs' \<Rightarrow> Inr (r\<lparr>cells := dict_set StockName (StrC name) (cells r)\<rparr> # rs')))"

definition enhance_dataframe :: "(string \<Rightarrow> string option) \<Rightarrow> frame \<Rightarrow> error + frame" where
  "enhance_dataframe ticker_name df =
     (if \<not> is_empty df
      then (case lookup_names ticker_name (rows df) of
              Inl e \<Rightarrow> Inl e
            | Inr rs \<Rightarrow>
                Inr \<lparr>columns = (if StockName \<in> set (columns df) then columns df
                                else columns df @ [StockName]),
                     rows = rs\<rparr>)
      else Inr df)"

text \<open>
  The columns that \<^verbatim>\<open>normalize_and_score\<close> is called on: every column but the ones
  it writes.
\<close>

fun plain_column :: "column \<Rightarrow> bool" where
  "plain_column (Norm d) = False"
| "plain_column CompositeScore = False"
| "plain_column c = True"


section \<open>The category triggers\<close>

text \<open>
  The derived metrics that several triggers compute with the same expression.
  \<open>intraday_change\<close> is \<^verbatim>\<open>(close / open - 1) * 100\<close>, \<open>day_over_day_change\<close>
  is \<^verbatim>\<open>(close - prev_close) / prev_close * 100\<close>, \<open>volume_growth\<close> is
  \<^verbatim>\<open>(volume / prev_volume.replace(0, nan) - 1) * 100\<close>.
\<close>

definition intraday_change :: "row \<Rightarrow> fval" where
  "intraday_change r = fmul (fsub (fdiv (num r Closing) (num r Opening)) (Fin 1)) (Fin 100)"

definition day_over_day_change :: "frame \<Rightarrow> row \<Rightarrow> fval" where
  "day_over_day_change prev r =
     fmul (fdiv (fsub (num r Closing) (aligned prev Closing r)) (aligned prev Closing r)) (Fin 100)"

definition volume_growth :: "frame \<Rightarrow> row \<Rightarrow> fval" where
  "volume_growth prev r =
     fmul (fsub (fdiv (num r Volume) (replace_zero (aligned prev Volume r))) (Fin 1)) (Fin 100)"

text \<open>
  Each trigger is written in three parts that follow the source top down: the table
  with its derived metrics (\<open>_metrics\<close>), the table of the candidates that pass the
  pre-filter, scored and sorted (\<open>_scored\<close>), and the selection that the trigger
  returns. Where the source returns \<^verbatim>\<open>pd.DataFrame()\<close> early because no candidate is
  left, the scored table is the empty table and the trigger returns it. The trade
  date is used for messages only, in every trigger.
\<close>

subsection \<open>Morning: volume surge\<close>

text \<open>
  \<^verbatim>\<open>trigger_morning_volume_surge\<close>, lines 154 to 186. The loop of lines 177 to 184
  only writes debug messages, inside its own \<^verbatim>\<open>try\<close>.
\<close>

definition volume_surge_metrics :: "frame \<Rightarrow> frame \<Rightarrow> frame" where
  "volume_surge_metrics snapshot prev_snapshot =
     (let common = intersection (index snapshot) (index prev_snapshot);
          snap = loc_list snapshot common;
          prev = loc_list prev_snapshot common;
          snap = apply_absolute_filters 500000000 snap;
          snap = set_col VolumeRatio
                   (\<lambda>r. FloatC (fdiv (num r Volume) (replace_zero (aligned prev Volume r)))) snap;
          snap = set_col VolumeGrowthPct
                   (\<lambda>r. FloatC (fmul (fsub (num r VolumeRatio) (Fin 1)) (Fin 100))) snap;
          snap = set_col IntradayChangePct (\<lambda>r. FloatC (intraday_change r)) snap;
          snap = set_col DayOverDayChangePct (\<lambda>r. FloatC (day_over_day_change prev r)) snap
      in set_col Rising (\<lambda>r. BoolC (fgt (num r Closing) (num r Opening))) snap)"

text \<open>Lines 189 to 196.\<close>

definition volume_surge_scored :: "frame \<Rightarrow> frame \<Rightarrow> frame" where
  "volume_surge_scored snapshot prev_snapshot =
     (let snap = where_rows (\<lambda>r. fge (num r VolumeGrowthPct) (Fin 30))
                   (volume_surge_metrics snapshot prev_snapshot)
      in if is_empty snap then empty_frame
         else normalize_and_score snap VolumeGrowthPct Volume (6 / 10) (4 / 10))"

text \<open>Lines 197 to 207.\<close>

definition trigger_morning_volume_surge ::
  "(string \<Rightarrow> string option) \<Rightarrow> frame \<Rightarrow> frame \<Rightarrow> nat \<Rightarrow> error + frame" where
  "trigger_morning_volume_surge ticker_name snapshot prev_snapshot top_n =
     (let scored = volume_surge_scored snapshot prev_snapshot
      in if is_empty scored then Inr empty_frame
         else
           let candidates = head top_n scored;
               result = where_rows (\<lambda>r. flag r Rising) candidates
           in if is_empty result then Inr empty_frame
              else enhance_dataframe ticker_name (head 3 (sort_values_desc CompositeScore result)))"

subsection \<open>Morning: gap-up momentum\<close>

text \<open>\<^verbatim>\<open>trigger_morning_gap_up_momentum\<close>, lines 217 to 228.\<close>

definition gap_up_metrics :: "frame \<Rightarrow> frame \<Rightarrow> frame" where
  "gap_up_metrics snapshot prev_snapshot =
     (let common = intersection (index snapshot) (index prev_snapshot);
          snap = loc_list snapshot common;
          prev = loc_list prev_snapshot common;
          snap = apply_absolute_filters 500000000 snap;
          snap = set_col GapPct
                   (\<lambda>r. FloatC (fmul (fsub (fdiv (num r Opening) (aligned prev Closing r)) (Fin 1))
                                      (Fin 100))) snap;
          snap = set_col IntradayChangePct (\<lambda>r. FloatC (intraday_change r)) snap;
          snap = set_col DayOverDayChangePct (\<lambda>r. FloatC (day_over_day_change prev r)) snap
      in set_col RiseContinues (\<lambda>r. BoolC (fgt (num r Closing) (num r Opening))) snap)"

text \<open>
  Lines 231 to 250, up to the sort: the pre-filtered table, scored and sorted when it
  is not empty.
\<close>

definition gap_up_scored :: "frame \<Rightarrow> frame \<Rightarrow> frame" where
  "gap_up_scored snapshot prev_snapshot =
     (let snap = where_rows (\<lambda>r. fge (num r GapPct) (Fin 1)) (gap_up_metrics snapshot prev_snapshot)
      in if \<not> is_empty snap
         then
           let snap = normalize_col GapPct snap;
               snap = normalize_col IntradayChangePct snap;
               snap = normalize_col TradeValue snap;
               snap = score3 GapPct (5 / 10) IntradayChangePct (3 / 10) TradeValue (2 / 10) snap
           in sort_values_desc CompositeScore snap
         else snap)"

text \<open>Lines 250 to 265.\<close>

definition trigger_morning_gap_up_momentum ::
  "(string \<Rightarrow> string option) \<Rightarrow> frame \<Rightarrow> frame \<Rightarrow> nat \<Rightarrow> error + frame" where
  "trigger_morning_gap_up_momentum ticker_name snapshot prev_snapshot top_n =
     (let scored = gap_up_scored snapshot prev_snapshot;
          candidates = (if \<not> is_empty scored then head top_n scored else scored);
          result = where_rows (\<lambda>r. flag r RiseContinues) candidates
      in if is_empty result then Inr empty_frame
         else
           let result = set_col TotalMomentum
                          (\<lambda>r. FloatC (fadd (num r GapPct) (num r IntradayChangePct))) result
           in enhance_dataframe ticker_name (head 3 (sort_values_desc CompositeScore result)))"

subsection \<open>Morning: trade value against market capitalisation\<close>

text \<open>
  The market-capitalisation table of the provider. Only its column of market
  capitalisations is read, and the code checks that the table has it.
\<close>

record cap_frame =
  has_market_cap :: bool
  cap_rows :: "(string \<times> int) list"

text \<open>
  \<^verbatim>\<open>snapshot.merge(cap_df[[cap]], left_index=True, right_index=True, how="inner")\<close>:
  the rows of the snapshot that the other table labels too, in the snapshot's order.
\<close>

definition merge_cap :: "frame \<Rightarrow> cap_frame \<Rightarrow> frame" where
  "merge_cap snapshot cap_df =
     \<lparr>columns = columns snapshot @ [MarketCap],
      rows = concat (map (\<lambda>r. map (\<lambda>p. r\<lparr>cells := dict_set MarketCap (IntC (snd p)) (cells r)\<rparr>)
                                  (filter (\<lambda>p. fst p = ticker r) (cap_rows cap_df)))
                         (rows snapshot))\<rparr>"

text \<open>
  \<^verbatim>\<open>trigger_morning_value_to_cap_ratio\<close>, lines 277 to 343: the merged table with
  its metrics, or the empty table where a guard returns early. The checks of lines
  303 and 330 to 334 look for columns that the merge has just made and never fire.
\<close>

definition value_to_cap_metrics :: "frame \<Rightarrow> frame \<Rightarrow> cap_frame \<Rightarrow> frame" where
  "value_to_cap_metrics snapshot prev_snapshot cap_df =
     (if is_empty snapshot then empty_frame
      else if is_empty prev_snapshot then empty_frame
      else if cap_rows cap_df = [] then empty_frame
      else if \<not> has_market_cap cap_df then empty_frame
      else
        let merged = merge_cap snapshot cap_df;
            common = intersection (index merged) (index prev_snapshot)
        in if common = [] then empty_frame
           else
             let merged = loc_list merged common;
                 prev = loc_list prev_snapshot common;
                 merged = apply_absolute_filters 500000000 merged
             in if is_empty merged then empty_frame
                else
                  let merged = set_col ValueToCapPct
                                 (\<lambda>r. FloatC (fmul (fdiv (num r TradeValue) (num r MarketCap))
                                                    (Fin 100))) merged;
                      merged = set_col IntradayChangePct (\<lambda>r. FloatC (intraday_change r)) merged;
                      merged = set_col DayOverDayChangePct
                                 (\<lambda>r. FloatC (day_over_day_change prev r)) merged
                  in set_col Rising (\<lambda>r. BoolC (fgt (num r Closing) (num r Opening))) merged)"

text \<open>Lines 346 to 370, up to the sort.\<close>

definition value_to_cap_scored :: "frame \<Rightarrow> frame \<Rightarrow> cap_frame \<Rightarrow> frame" where
  "value_to_cap_scored snapshot prev_snapshot cap_df =
     (let merged = where_rows (\<lambda>r. fge (num r MarketCap) (Fin 10000000000))
                     (value_to_cap_metrics snapshot prev_snapshot cap_df)
      in if is_empty merged then empty_frame
         else
           let merged = normalize_col ValueToCapPct merged;
               merged = normalize_col TradeValue merged;
               merged = normalize_col IntradayChangePct merged;
               merged = score3 ValueToCapPct (5 / 10) TradeValue (3 / 10)
                          IntradayChangePct (2 / 10) merged
           in sort_values_desc CompositeScore merged)"

text \<open>
  Lines 370 to 388. The body of the function runs inside
  \<^verbatim>\<open>try ... except Exception\<close>, which turns a failure of the name lookup into an
  empty result.
\<close>

definition trigger_morning_value_to_cap_ratio ::
  "(string \<Rightarrow> string option) \<Rightarrow> frame \<Rightarrow> frame \<Rightarrow> cap_frame \<Rightarrow> nat \<Rightarrow> error + frame" where
  "trigger_morning_value_to_cap_ratio ticker_name snapshot prev_snapshot cap_df top_n =
     (let scored = value_to_cap_scored snapshot prev_snapshot cap_df
      in if is_empty scored then Inr empty_frame
         else
           let candidates = head top_n scored;
               result = where_rows (\<lambda>r. flag r Rising) candidates
           in if is_empty result then Inr empty_frame
              else
                (case enhance_dataframe ticker_name
                        (head 3 (sort_values_desc CompositeScore result)) of
                   Inl e \<Rightarrow> Inr empty_frame
                 | Inr df \<Rightarrow> Inr df))"

subsection \<open>Afternoon: daily rise\<close>

text \<open>\<^verbatim>\<open>trigger_afternoon_daily_rise_top\<close>, lines 401 to 410.\<close>

definition daily_rise_metrics :: "frame \<Rightarrow> frame \<Rightarrow> frame" where
  "daily_rise_metrics snapshot prev_snapshot =
     (let common = intersection (index snapshot) (index prev_snapshot);
          snap = loc_list snapshot common;
          prev = loc_list prev_snapshot common;
          snap = apply_absolute_filters 1000000000 snap;
          snap = set_col IntradayChangePct (\<lambda>r. FloatC (intraday_change r)) snap
      in set_col DayOverDayChangePct (\<lambda>r. FloatC (day_over_day_change prev r)) snap)"

text \<open>Lines 413 to 420.\<close>

definition daily_rise_scored :: "frame \<Rightarrow> frame \<Rightarrow> frame" where
  "daily_rise_scored snapshot prev_snapshot =
     (let snap = where_rows (\<lambda>r. fge (num r IntradayChangePct) (Fin 3))
                   (daily_rise_metrics snapshot prev_snapshot)
      in if is_empty snap then empty_frame
         else normalize_and_score snap IntradayChangePct TradeValue (6 / 10) (4 / 10))"

text \<open>Lines 423 to 426.\<close>

definition trigger_afternoon_daily_rise_top ::
  "(string \<Rightarrow> string option) \<Rightarrow> frame \<Rightarrow> frame \<Rightarrow> nat \<Rightarrow> error + frame" where
  "trigger_afternoon_daily_rise_top ticker_name snapshot prev_snapshot top_n =
     (let scored = daily_rise_scored snapshot prev_snapshot
      in if is_empty scored then Inr empty_frame
         else
           let result = head top_n scored
           in enhance_dataframe ticker_name (head 3 result))"

subsection \<open>Afternoon: closing strength\<close>

text \<open>\<^verbatim>\<open>trigger_afternoon_closing_strength\<close>, lines 436 to 456.\<close>

definition closing_strength_metrics :: "frame \<Rightarrow> frame \<Rightarrow> frame" where
  "closing_strength_metrics snapshot prev_snapshot =
     (let common = intersection (index snapshot) (index prev_snapshot);
          snap = loc_list snapshot common;
          prev = loc_list prev_snapshot common;
          snap = apply_absolute_filters 500000000 snap;
          snap = set_col ClosingStrength
                   (\<lambda>r. FloatC (if high_px r \<noteq> low_px r
                                then fdiv (fsub (num r Closing) (num r Low))
                                          (fsub (num r High) (num r Low))
                                else Fin 0)) snap;
          snap = set_col VolumeGrowthPct (\<lambda>r. FloatC (volume_growth prev r)) snap;
          snap = set_col IntradayChangePct (\<lambda>r. FloatC (intraday_change r)) snap;
          snap = set_col DayOverDayChangePct (\<lambda>r. FloatC (day_over_day_change prev r)) snap;
          snap = set_col VolumeUp
                   (\<lambda>r. BoolC (fgt (fsub (num r Volume) (replace_zero (aligned prev Volume r)))
                                     (Fin 0))) snap
      in set_col Rising (\<lambda>r. BoolC (fgt (num r Closing) (num r Opening))) snap)"

text \<open>Lines 459 to 478, up to the sort.\<close>

definition closing_strength_scored :: "frame \<Rightarrow> frame \<Rightarrow> frame" where
  "closing_strength_scored snapshot prev_snapshot =
     (let candidates = where_rows (\<lambda>r. flag r VolumeUp)
                         (closing_strength_metrics snapshot prev_snapshot)
      in if \<not> is_empty candidates
         then
           let candidates = normalize_col ClosingStrength candidates;
               candidates = normalize_col VolumeGrowthPct candidates;
               candidates = normalize_col TradeValue candidates;
               candidates = score3 ClosingStrength (5 / 10) VolumeGrowthPct (3 / 10)
                              TradeValue (2 / 10) candidates
           in sort_values_desc CompositeScore candidates
         else candidates)"

text \<open>Lines 478 to 488.\<close>

definition trigger_afternoon_closing_strength ::
  "(string \<Rightarrow> string option) \<Rightarrow> frame \<Rightarrow> frame \<Rightarrow> nat \<Rightarrow> error + frame" where
  "trigger_afternoon_closing_strength ticker_name snapshot prev_snapshot top_n =
     (let scored = closing_strength_scored snapshot prev_snapshot;
          candidates = (if \<not> is_empty scored then head top_n scored else scored);
          result = where_rows (\<lambda>r. flag r Rising) candidates
      in if is_empty result then Inr empty_frame
         else enhance_dataframe ticker_name (head 3 (sort_values_desc CompositeScore result)))"

subsection \<open>Afternoon: volume surge without a price move\<close>

text \<open>\<^verbatim>\<open>trigger_afternoon_volume_surge_flat\<close>, lines 498 to 513.\<close>

definition volume_surge_flat_metrics :: "frame \<Rightarrow> frame \<Rightarrow> frame" where
  "volume_surge_flat_metrics snapshot prev_snapshot =
     (let common = intersection (index snapshot) (index prev_snapshot);
          snap = loc_list snapshot common;
          prev = loc_list prev_snapshot common;
          snap = apply_absolute_filters 500000000 snap;
          snap = set_col VolumeGrowthPct (\<lambda>r. FloatC (volume_growth prev r)) snap;
          snap = set_col IntradayChangePct (\<lambda>r. FloatC (intraday_change r)) snap;
          snap = set_col DayOverDayChangePct (\<lambda>r. FloatC (day_over_day_change prev r)) snap
      in set_col Sideways (\<lambda>r. BoolC (fle (fabs (num r IntradayChangePct)) (Fin 5))) snap)"

text \<open>Lines 516 to 523.\<close>

definition volume_surge_flat_scored :: "frame \<Rightarrow> frame \<Rightarrow> frame" where
  "volume_surge_flat_scored snapshot prev_snapshot =
     (let snap = where_rows (\<lambda>r. fge (num r VolumeGrowthPct) (Fin 50))
                   (volume_surge_flat_metrics snapshot prev_snapshot)
      in if is_empty snap then empty_frame
         else normalize_and_score snap VolumeGrowthPct TradeValue (6 / 10) (4 / 10))"

text \<open>
  Lines 526 to 542. The loop of lines 536 to 539 only writes debug messages.
\<close>

definition trigger_afternoon_volume_surge_flat ::
  "(string \<Rightarrow> string option) \<Rightarrow> frame \<Rightarrow> frame \<Rightarrow> nat \<Rightarrow> error + frame" where
  "trigger_afternoon_volume_surge_flat ticker_name snapshot prev_snapshot top_n =
     (let scored = volume_surge_flat_scored snapshot prev_snapshot
      in if is_empty scored then Inr empty_frame
         else
           let candidates = head top_n scored;
               result = where_rows (\<lambda>r. flag r Sideways) candidates
           in if is_empty result then Inr empty_frame
              else enhance_dataframe ticker_name (head 3 (sort_values_desc CompositeScore result)))"

section \<open>The final allocation\<close>

text \<open>
  \<^verbatim>\<open>select_final_tickers(triggers)\<close>, lines 545 to 603. The dict \<^verbatim>\<open>triggers\<close> maps
  a category name to its result table; Python dicts iterate in insertion order, so a
  dict is an association list.
\<close>

text \<open>
  \<^verbatim>\<open>triggers[name]\<close>. The function only looks up names it has read from the dict
  itself, so the lookup never fails; the table of an absent name is the empty one.
\<close>

definition get_table :: "('n \<times> frame) list \<Rightarrow> 'n \<Rightarrow> frame" where
  "get_table triggers name = (case map_of triggers name of Some df \<Rightarrow> df | None \<Rightarrow> empty_frame)"

text \<open>
  Line 564: \<^verbatim>\<open>df.loc[ticker, score] if score in df.columns else 0\<close>, for a ticker
  of the index of \<open>df\<close>.
\<close>

definition score_at :: "frame \<Rightarrow> string \<Rightarrow> fval" where
  "score_at df t =
     (if CompositeScore \<in> set (columns df)
      then (case find (\<lambda>r. ticker r = t) (rows df) of Some r \<Rightarrow> num r CompositeScore | None \<Rightarrow> NaN)
      else Fin 0)"

type_synonym 'n pool_entry = "'n \<times> string \<times> fval"

definition entry_ticker :: "'n pool_entry \<Rightarrow> string" where
  "entry_ticker e = fst (snd e)"

definition entry_score :: "'n pool_entry \<Rightarrow> fval" where
  "entry_score e = snd (snd e)"

text \<open>
  Lines 555 to 565: the pool. The state of the loops is the set \<^verbatim>\<open>all_tickers\<close>
  and the list \<^verbatim>\<open>all_tickers_with_scores\<close>. \<open>collect_table\<close> is the inner loop
  over \<^verbatim>\<open>df.index\<close>, \<open>collect\<close> the outer loop over the dict.
\<close>

fun collect_table ::
  "'n \<Rightarrow> frame \<Rightarrow> string list \<Rightarrow> string fset \<times> 'n pool_entry list \<Rightarrow> string fset \<times> 'n pool_entry list" where
  "collect_table name df [] st = st"
| "collect_table name df (t # ts) (all_tickers, pool) =
     (if \<not> t |\<in>| all_tickers
      then collect_table name df ts (finsert t all_tickers, pool @ [(name, t, score_at df t)])
      else collect_table name df ts (all_tickers, pool))"

fun collect ::
  "('n \<times> frame) list \<Rightarrow> string fset \<times> 'n pool_entry list \<Rightarrow> string fset \<times> 'n pool_entry list" where
  "collect [] st = st"
| "collect ((name, df) # rest) st =
     collect rest (if \<not> is_empty df then collect_table name df (index df) st else st)"

text \<open>Line 568: the pool sorted by score, highest first.\<close>

definition sorted_pool :: "('n \<times> frame) list \<Rightarrow> 'n pool_entry list" where
  "sorted_pool triggers = py_sort_desc entry_score (snd (collect triggers ({||}, [])))"

text \<open>Lines 571 to 573: the free tier.\<close>

definition free_result :: "('n \<times> frame) list \<Rightarrow> ('n \<times> frame) list" where
  "free_result triggers =
     (case sorted_pool triggers of
        [] \<Rightarrow> []
      | (best_trigger, best_ticker, _) # _ \<Rightarrow>
          dict_set best_trigger (loc (get_table triggers best_trigger) best_ticker) [])"

text \<open>
  Lines 576 to 585: the first pass of the premium tier. The state is the set
  \<^verbatim>\<open>premium_tickers\<close> and the dict \<^verbatim>\<open>premium_result\<close>.
\<close>

fun premium_first ::
  "('n \<times> frame) list \<Rightarrow> string fset \<times> ('n \<times> frame) list \<Rightarrow> string fset \<times> ('n \<times> frame) list" where
  "premium_first [] st = st"
| "premium_first ((name, df) # rest) (premium_tickers, premium_result) =
     (case rows df of
        [] \<Rightarrow> premium_first rest (premium_tickers, premium_result)
      | r0 # _ \<Rightarrow>
          if fcard premium_tickers < 3 \<and> \<not> ticker r0 |\<in>| premium_tickers
          then premium_first rest
                 (finsert (ticker r0) premium_tickers,
                  dict_set name (loc df (ticker r0)) premium_result)
          else premium_first rest (premium_tickers, premium_result))"

text \<open>Lines 589 to 601: the second pass, over the sorted pool.\<close>

fun premium_fill ::
  "('n \<times> frame) list \<Rightarrow> 'n pool_entry list \<Rightarrow> string fset \<times> ('n \<times> frame) list
     \<Rightarrow> string fset \<times> ('n \<times> frame) list" where
  "premium_fill triggers [] st = st"
| "premium_fill triggers ((trigger_name, t, s) # rest) (premium_tickers, premium_result) =
     (if \<not> t |\<in>| premium_tickers \<and> fcard premium_tickers < 3
      then premium_fill triggers rest
             (finsert t premium_tickers,
              (case map_of premium_result trigger_name of
                 Some old \<Rightarrow>
                   dict_set trigger_name
                     (concat_frames old (loc (get_table triggers trigger_name) t)) premium_result
               | None \<Rightarrow>
                   dict_set trigger_name (loc (get_table triggers trigger_name) t) premium_result))
      else premium_fill triggers rest (premium_tickers, premium_result))"

definition premium_result :: "('n \<times> frame) list \<Rightarrow> ('n \<times> frame) list" where
  "premium_result triggers =
     (let st = premium_first triggers ({||}, [])
      in if fcard (fst st) < 3 then snd (premium_fill triggers (sorted_pool triggers) st)
         else snd st)"

record 'n allocation =
  free :: "('n \<times> frame) list"
  premium :: "('n \<times> frame) list"

definition select_final_tickers :: "('n \<times> frame) list \<Rightarrow> 'n allocation" where
  "select_final_tickers triggers =
     \<lparr>free = free_result triggers, premium = premium_result triggers\<rparr>"

text \<open>The tickers of a tier, over all its categories, one per row.\<close>

definition tier_tickers :: "('n \<times> frame) list \<Rightarrow> string list" where
  "tier_tickers tier = concat (map (\<lambda>p. index (snd p)) tier)"

text \<open>The (category, ticker) pairs of a tier, one per row.\<close>

definition tier_picks :: "('n \<times> frame) list \<Rightarrow> ('n \<times> string) list" where
  "tier_picks tier = concat (map (\<lambda>p. map (\<lambda>t. (fst p, t)) (index (snd p))) tier)"

text \<open>
  The invariant of the two premium passes: the dict holds no ticker twice, every ticker
  it holds is in \<^verbatim>\<open>premium_tickers\<close>, and that set has at most three elements.
\<close>

definition premium_inv :: "string fset \<times> ('n \<times> frame) list \<Rightarrow> bool" where
  "premium_inv st = (distinct (tier_tickers (snd st)) \<and> set (tier_tickers (snd st)) \<subseteq> fset (fst st)
     \<and> fcard (fst st) \<le> 3)"

text \<open>A list is in descending order of a key when no later key is above an earlier one.\<close>

definition desc_sorted :: "('a \<Rightarrow> fval) \<Rightarrow> 'a list \<Rightarrow> bool" where
  "desc_sorted k xs = sorted_wrt (\<lambda>a b. fle (k b) (k a)) xs"

text \<open>
  The invariant of the pool loops: the pool holds one entry per ticker of
  \<^verbatim>\<open>all_tickers\<close>, and no ticker twice.
\<close>

definition pool_inv :: "string fset \<times> 'n pool_entry list \<Rightarrow> bool" where
  "pool_inv st = (distinct (map entry_ticker (snd st)) \<and> set (map entry_ticker (snd st)) = fset (fst st))"

text \<open>
  A pool entry is first-listed when its category is the first table of the dict, in
  iteration order, whose index holds its ticker, and its score is the ticker's score
  in that table.
\<close>

definition first_listed :: "('n \<times> frame) list \<Rightarrow> 'n pool_entry \<Rightarrow> bool" where
  "first_listed triggers e =
     (\<exists>pre df post. triggers = pre @ (fst e, df) # post \<and> entry_ticker e \<in> set (index df)
        \<and> (\<forall>q\<in>set pre. entry_ticker e \<notin> set (index (snd q)))
        \<and> entry_score e = score_at df (entry_ticker e))"

section \<open>The batch\<close>

text \<open>
  The external data provider \<^verbatim>\<open>pykrx.stock.stock_api\<close>, as the functions the
  program calls. \<open>get_nearest_business_day_in_a_week\<close> is always called with
  \<^verbatim>\<open>prev=True\<close>; \<open>get_market_ticker_name\<close> returns \<open>None\<close> where the call raises.
\<close>

record stock_api =
  get_market_ohlcv_by_ticker :: "string \<Rightarrow> frame"
  get_nearest_business_day_in_a_week :: "string \<Rightarrow> string"
  get_market_cap_by_ticker :: "string \<Rightarrow> cap_frame"
  get_market_ticker_name :: "string \<Rightarrow> string option"

text \<open>\<^verbatim>\<open>get_snapshot(trade_date)\<close>, lines 20 to 35.\<close>

definition get_snapshot :: "stock_api \<Rightarrow> string \<Rightarrow> error + frame" where
  "get_snapshot api trade_date =
     (let df = get_market_ohlcv_by_ticker api trade_date
      in if is_empty df then Inl (NoOhlcvData trade_date) else Inr df)"

text \<open>
  \<^verbatim>\<open>get_previous_snapshot(trade_date)\<close>, lines 37 to 64. \<open>day_before\<close> is the
  calendar arithmetic of lines 42 to 48: the date string of the day before.
\<close>

definition previous_date :: "stock_api \<Rightarrow> (string \<Rightarrow> string) \<Rightarrow> string \<Rightarrow> string" where
  "previous_date api day_before trade_date =
     get_nearest_business_day_in_a_week api (day_before trade_date)"

definition get_previous_snapshot ::
  "stock_api \<Rightarrow> (string \<Rightarrow> string) \<Rightarrow> string \<Rightarrow> error + frame \<times> string" where
  "get_previous_snapshot api day_before trade_date =
     (let prev_date = previous_date api day_before trade_date;
          df = get_market_ohlcv_by_ticker api prev_date
      in if is_empty df then Inl (NoOhlcvData prev_date) else Inr (df, prev_date))"

text \<open>\<^verbatim>\<open>get_market_cap_df(trade_date, market="ALL")\<close>, lines 66 to 76.\<close>

definition get_market_cap_df :: "stock_api \<Rightarrow> string \<Rightarrow> error + cap_frame" where
  "get_market_cap_df api trade_date =
     (let cap_df = get_market_cap_by_ticker api trade_date
      in if cap_rows cap_df = [] then Inl (NoMarketCapData trade_date) else Inr cap_df)"

text \<open>
  The six category names, the keys of the dict \<^verbatim>\<open>triggers\<close> (lines 641 and 648),
  in the order of the source: the three morning categories, then the three afternoon
  ones.
\<close>

datatype category =
    MorningVolumeSurge | MorningGapUpMomentum | MorningValueToCap
  | AfternoonDailyRiseTop | AfternoonClosingStrength | AfternoonVolumeSurgeFlat

text \<open>
  Lines 635 to 651: the triggers of a mode, run in order with their default
  \<^verbatim>\<open>top_n\<close>; a failure of one ends the batch. A mode that is neither
  \<^verbatim>\<open>"morning"\<close> nor \<^verbatim>\<open>"afternoon"\<close> makes \<^verbatim>\<open>run_batch\<close> return
  \<^verbatim>\<open>None\<close>.
\<close>

definition run_triggers ::
  "stock_api \<Rightarrow> string \<Rightarrow> frame \<Rightarrow> frame \<Rightarrow> cap_frame \<Rightarrow> error + (category \<times> frame) list option" where
  "run_triggers api trigger_time snapshot prev_snapshot cap_df =
     (let ticker_name = get_market_ticker_name api
      in if trigger_time = ''morning''
         then
           (case trigger_morning_volume_surge ticker_name snapshot prev_snapshot 10 of
              Inl e \<Rightarrow> Inl e
            | Inr res1 \<Rightarrow>
           (case trigger_morning_gap_up_momentum ticker_name snapshot prev_snapshot 15 of
              Inl e \<Rightarrow> Inl e
            | Inr res2 \<Rightarrow>
           (case trigger_morning_value_to_cap_ratio ticker_name snapshot prev_snapshot cap_df 10 of
              Inl e \<Rightarrow> Inl e
            | Inr res3 \<Rightarrow>
                Inr (Some [(MorningVolumeSurge, res1), (MorningGapUpMomentum, res2),
                           (MorningValueToCap, res3)]))))
         else if trigger_time = ''afternoon''
         then
           (case trigger_afternoon_daily_rise_top ticker_name snapshot prev_snapshot 15 of
              Inl e \<Rightarrow> Inl e
            | Inr res1 \<Rightarrow>
           (case trigger_afternoon_closing_strength ticker_name snapshot prev_snapshot 15 of
              Inl e \<Rightarrow> Inl e
            | Inr res2 \<Rightarrow>
           (case trigger_afternoon_volume_surge_flat ticker_name snapshot prev_snapshot 20 of
              Inl e \<Rightarrow> Inl e
            | Inr res3 \<Rightarrow>
                Inr (Some [(AfternoonDailyRiseTop, res1), (AfternoonClosingStrength, res2),
                           (AfternoonVolumeSurgeFlat, res3)]))))
         else Inr None)"

text \<open>The values of the JSON document.\<close>

datatype json = JStr string | JNum fval | JInt int

text \<open>
  Lines 687 to 705: the record of one row of a selected table. The table is not empty
  here, so it has the snapshot columns. The ticker-name cell is a string wherever the
  column exists.
\<close>

definition stock_info :: "category \<Rightarrow> frame \<Rightarrow> row \<Rightarrow> (string \<times> json) list" where
  "stock_info trigger_type stocks_df r =
     [(''code'', JStr (ticker r)),
      (''name'', if StockName \<in> set (columns stocks_df)
                 then (case map_of (cells r) StockName of Some (StrC s) \<Rightarrow> JStr s
                       | _ \<Rightarrow> JNum NaN)
                 else JStr ''''),
      (''current_price'', JNum (num r Closing)),
      (''change_rate'', if DayOverDayChangePct \<in> set (columns stocks_df)
                        then JNum (num r DayOverDayChangePct) else JInt 0),
      (''volume'', JInt (volume r)),
      (''trade_value'', JNum (num r TradeValue))]
     @ (if VolumeGrowthPct \<in> set (columns stocks_df) \<and> trigger_type = MorningVolumeSurge
        then [(''volume_increase'', JNum (num r VolumeGrowthPct))]
        else if GapPct \<in> set (columns stocks_df)
        then [(''gap_rate'', JNum (num r GapPct))]
        else if ValueToCapPct \<in> set (columns stocks_df)
        then [(''trade_value_ratio'', JNum (num r ValueToCapPct)),
              (''market_cap'', JNum (num r MarketCap))]
        else if ClosingStrength \<in> set (columns stocks_df)
        then [(''closing_strength'', JNum (num r ClosingStrength))]
        else [])"

text \<open>Lines 680 to 707: one tier of the document, the records of every non-empty table.\<close>

definition tier_document ::
  "(category \<times> frame) list \<Rightarrow> (category \<times> (string \<times> json) list list) list" where
  "tier_document tier =
     map (\<lambda>p. (fst p, map (stock_info (fst p) (snd p)) (rows (snd p))))
         (filter (\<lambda>p. \<not> is_empty (snd p)) tier)"

record document =
  doc_free :: "(category \<times> (string \<times> json) list list) list"
  doc_premium :: "(category \<times> (string \<times> json) list list) list"
  doc_run_time :: string
  doc_trigger_mode :: string
  doc_trade_date :: string

text \<open>
  What a call of \<^verbatim>\<open>run_batch\<close> does: it raises (\<open>Inl\<close>), returns \<^verbatim>\<open>None\<close>
  (\<open>Inr None\<close>) or returns the allocation; \<open>ohlcv_requests\<close> lists the dates it has
  asked the provider's OHLCV table for, in order; \<open>written\<close> is the document it has
  written to the output file, if any.
\<close>

record batch_result =
  outcome :: "error + category allocation option"
  ohlcv_requests :: "string list"
  written :: "document option"

text \<open>
  Lines 629 to 722, the batch once the snapshot is there. \<open>now\<close> is the clock reading
  of line 711. \<^verbatim>\<open>if output_file:\<close> holds for a path that is given and not empty.
\<close>

definition batch_body ::
  "stock_api \<Rightarrow> (string \<Rightarrow> string) \<Rightarrow> string \<Rightarrow> string \<Rightarrow> string option \<Rightarrow> string \<Rightarrow> frame
     \<Rightarrow> string list \<Rightarrow> batch_result" where
  "batch_body api day_before now trigger_time output_file trade_date snapshot requests =
     (let requests = requests @ [previous_date api day_before trade_date]
      in case get_previous_snapshot api day_before trade_date of
           Inl e \<Rightarrow> \<lparr>outcome = Inl e, ohlcv_requests = requests, written = None\<rparr>
         | Inr (prev_snapshot, prev_date) \<Rightarrow>
        (case get_market_cap_df api trade_date of
           Inl e \<Rightarrow> \<lparr>outcome = Inl e, ohlcv_requests = requests, written = None\<rparr>
         | Inr cap_df \<Rightarrow>
        (case run_triggers api trigger_time snapshot prev_snapshot cap_df of
           Inl e \<Rightarrow> \<lparr>outcome = Inl e, ohlcv_requests = requests, written = None\<rparr>
         | Inr None \<Rightarrow> \<lparr>outcome = Inr None, ohlcv_requests = requests, written = None\<rparr>
         | Inr (Some triggers) \<Rightarrow>
             let final_results = select_final_tickers triggers
             in \<lparr>outcome = Inr (Some final_results),
                 ohlcv_requests = requests,
                 written =
                   (case output_file of
                      None \<Rightarrow> None
                    | Some path \<Rightarrow>
                        if path = [] then None
                        else Some \<lparr>doc_free = tier_document (free final_results),
                                   doc_premium = tier_document (premium final_results),
                                   doc_run_time = now, doc_trigger_mode = trigger_time,
                                   doc_trade_date = trade_date\<rparr>)\<rparr>)))"

text \<open>
  \<^verbatim>\<open>run_batch(trigger_time, log_level, output_file)\<close>, lines 606 to 722. \<open>today_str\<close>
  is the clock reading of line 617. The log level only selects messages.
\<close>

definition run_batch ::
  "stock_api \<Rightarrow> (string \<Rightarrow> string) \<Rightarrow> string \<Rightarrow> string \<Rightarrow> string \<Rightarrow> string option \<Rightarrow> batch_result" where
  "run_batch api day_before today_str now trigger_time output_file =
     (let trade_date = get_nearest_business_day_in_a_week api today_str
      in case get_snapshot api trade_date of
           Inr snapshot \<Rightarrow>
             batch_body api day_before now trigger_time output_file trade_date snapshot [trade_date]
         | Inl e \<Rightarrow>
             let retry_date = get_nearest_business_day_in_a_week api trade_date
             in (case get_snapshot api retry_date of
                   Inl e2 \<Rightarrow>
                     \<lparr>outcome = Inl e2, ohlcv_requests = [trade_date, retry_date], written = None\<rparr>
                 | Inr snapshot \<Rightarrow>
                     batch_body api day_before now trigger_time output_file retry_date snapshot
                       [trade_date, retry_date]))"

text \<open>The field names of the records of one tier of the document, category by category.\<close>

definition record_fields ::
  "(category \<times> (string \<times> json) list list) list \<Rightarrow> (category \<times> string list list) list" where
  "record_fields tier = map (\<lambda>p. (fst p, map (map fst) (snd p))) tier"

text \<open>The six fields that lines 687 to 694 give every record.\<close>

definition common_fields :: "string list" where
  "common_fields = [''code'', ''name'', ''current_price'', ''change_rate'', ''volume'', ''trade_value'']"

text \<open>
  A tier is made from the trigger tables when each of its tables has the columns of
  the trigger table of its category and only rows of that table.
\<close>

definition from_tables :: "('n \<times> frame) list \<Rightarrow> ('n \<times> frame) list \<Rightarrow> bool" where
  "from_tables triggers tier =
     (\<forall>p\<in>set tier. columns (snd p) = columns (get_table triggers (fst p))
        \<and> set (rows (snd p)) \<subseteq> set (rows (get_table triggers (fst p))))"

text \<open>The tickers of a list of rows with their composite scores, in row order.\<close>

definition scores :: "row list \<Rightarrow> (string \<times> fval) list" where
  "scores rs = map (\<lambda>r. (ticker r, num r CompositeScore)) rs"



section \<open>Example inputs\<close>

text \<open>A row that carries a composite score, and a result table of such rows.\<close>

definition scored_row :: "string \<Rightarrow> real \<Rightarrow> row" where
  "scored_row t s =
     \<lparr>ticker = t, open_px = 100, high_px = 110, low_px = 90, close_px = 105, volume = 1000,
      trade_value = 100000, cells = [(CompositeScore, FloatC (Fin s))]\<rparr>"

definition scored_table :: "row list \<Rightarrow> frame" where
  "scored_table rs = \<lparr>columns = [CompositeScore], rows = rs\<rparr>"

text \<open>Ticker T1 tops both category A and category B.\<close>

definition shared_top_triggers :: "(string \<times> frame) list" where
  "shared_top_triggers =
     [(''A'', scored_table [scored_row ''T1'' (9/10), scored_row ''T2'' (5/10)]),
      (''B'', scored_table [scored_row ''T1'' (8/10), scored_row ''T3'' (7/10)]),
      (''C'', empty_frame)]"

text \<open>Ticker T is listed by category A with score 0.50 and by category B with score 0.95.\<close>

definition dup_triggers :: "(string \<times> frame) list" where
  "dup_triggers =
     [(''A'', scored_table [scored_row ''T'' (50/100)]),
      (''B'', scored_table [scored_row ''T'' (95/100)])]"

text \<open>A snapshot row, before any pipeline has added a column.\<close>

definition bar :: "string \<Rightarrow> int \<Rightarrow> int \<Rightarrow> int \<Rightarrow> int \<Rightarrow> int \<Rightarrow> int \<Rightarrow> row" where
  "bar t o_px h_px l_px c_px v tv =
     \<lparr>ticker = t, open_px = o_px, high_px = h_px, low_px = l_px, close_px = c_px, volume = v,
      trade_value = tv, cells = []\<rparr>"


text \<open>
  A market of five tickers on two days. On the later day A, C and E close above their
  open and B below it; D trades less than the floor of 500,000,000; the volume of E on
  the earlier day is 0.
\<close>

definition today_snapshot :: frame where
  "today_snapshot =
     \<lparr>columns = [],
      rows = [bar ''A'' 1000 1100 990 1080 2000000 2100000000,
              bar ''B'' 5000 5100 4900 4950 1500000 7400000000,
              bar ''C'' 2000 2200 2000 2200 1300000 2700000000,
              bar ''D'' 300 310 290 305 900000 270000000,
              bar ''E'' 800 900 800 880 3000000 2500000000]\<rparr>"

definition earlier_snapshot :: frame where
  "earlier_snapshot =
     \<lparr>columns = [],
      rows = [bar ''A'' 990 1010 980 1000 1000000 1000000000,
              bar ''B'' 4900 5050 4900 5000 1000000 5000000000,
              bar ''C'' 1900 1960 1890 1950 1000000 1900000000,
              bar ''D'' 300 305 295 300 100000 30000000,
              bar ''E'' 790 790 790 790 0 0]\<rparr>"

definition market_caps :: cap_frame where
  "market_caps =
     \<lparr>has_market_cap = True,
      cap_rows = [(''A'', 50000000000), (''B'', 900000000000), (''C'', 30000000000),
                  (''D'', 5000000000), (''E'', 20000000000)]\<rparr>"

text \<open>A name lookup that knows every ticker, and one that fails on ticker A.\<close>

definition all_names :: "string \<Rightarrow> string option" where
  "all_names t = Some (''Company '' @ t)"

definition names_but_A :: "string \<Rightarrow> string option" where
  "names_but_A t = (if t = ''A'' then None else Some (''Company '' @ t))"

text \<open>
  A provider that serves the two snapshots on the dates 20240105 and 20240104, an
  empty table on every other date, and the market capitalisations on 20240105. Both
  dates are business days, so the resolver returns them unchanged; it moves a date of
  the following weekend back to 20240105.
\<close>

definition example_api :: "(string \<Rightarrow> string option) \<Rightarrow> stock_api" where
  "example_api names =
     \<lparr>get_market_ohlcv_by_ticker =
        (\<lambda>d. if d = ''20240105'' then today_snapshot
             else if d = ''20240104'' then earlier_snapshot
             else \<lparr>columns = [], rows = []\<rparr>),
      get_nearest_business_day_in_a_week =
        (\<lambda>d. if d = ''20240106'' \<or> d = ''20240107'' then ''20240105'' else d),
      get_market_cap_by_ticker =
        (\<lambda>d. if d = ''20240105'' then market_caps
             else \<lparr>has_market_cap = True, cap_rows = []\<rparr>),
      get_market_ticker_name = names\<rparr>"

definition example_day_before :: "string \<Rightarrow> string" where
  "example_day_before d =
     (if d = ''20240107'' then ''20240106''
      else if d = ''20240106'' then ''20240105''
      else if d = ''20240105'' then ''20240104''
      else if d = ''20240104'' then ''20240103''
      else ''20240102'')"

section \<open>Properties of the final allocation\<close>

lemma index_loc: "index (loc df t) = filter (\<lambda>x. x = t) (index df)"
  by (simp add: index_def loc_def filter_map comp_def)

lemma distinct_index_loc: "distinct (index df) \<Longrightarrow> distinct (index (loc df t))"
  by (simp add: index_loc)

lemma set_index_loc: "set (index (loc df t)) \<subseteq> {t}"
  by (auto simp: index_loc)

lemma index_concat_frames: "index (concat_frames a b) = index a @ index b"
  by (simp add: index_def concat_frames_def)

lemma tier_tickers_Cons: "tier_tickers (p # ps) = index (snd p) @ tier_tickers ps"
  by (simp add: tier_tickers_def)

lemma tier_tickers_Nil: "tier_tickers [] = []"
  by (simp add: tier_tickers_def)

lemma set_tier_dict_set:
  "set (tier_tickers (dict_set k v ps)) \<subseteq> set (tier_tickers ps) \<union> set (index v)"
  by (induction ps) (auto simp: tier_tickers_Cons tier_tickers_Nil)

lemma distinct_tier_dict_set:
  "distinct (tier_tickers ps) \<Longrightarrow> distinct (index v) \<Longrightarrow>
   set (index v) \<inter> set (tier_tickers ps) = {} \<Longrightarrow>
   distinct (tier_tickers (dict_set k v ps))"
proof (induction ps)
  case Nil
  then show ?case by (simp add: tier_tickers_Cons tier_tickers_Nil)
next
  case (Cons p ps)
  show ?case
  proof (cases "fst p = k")
    case True
    with Cons.prems show ?thesis by (auto simp: tier_tickers_Cons)
  next
    case False
    have d: "distinct (tier_tickers (dict_set k v ps))"
      using Cons by (auto simp: tier_tickers_Cons)
    have "set (index (snd p)) \<inter> set (tier_tickers (dict_set k v ps)) = {}"
      using set_tier_dict_set[of k v ps] Cons.prems by (auto simp: tier_tickers_Cons)
    with d False Cons.prems show ?thesis by (auto simp: tier_tickers_Cons)
  qed
qed

lemma set_tier_dict_set_concat:
  "map_of ps k = Some old \<Longrightarrow>
   set (tier_tickers (dict_set k (concat_frames old new) ps)) \<subseteq> set (tier_tickers ps) \<union> set (index new)"
  by (induction ps) (auto simp: tier_tickers_Cons tier_tickers_Nil index_concat_frames split: if_splits)

lemma distinct_tier_dict_set_concat:
  "map_of ps k = Some old \<Longrightarrow> distinct (tier_tickers ps) \<Longrightarrow> distinct (index new) \<Longrightarrow>
   set (index new) \<inter> set (tier_tickers ps) = {} \<Longrightarrow>
   distinct (tier_tickers (dict_set k (concat_frames old new) ps))"
proof (induction ps)
  case Nil
  then show ?case by simp
next
  case (Cons p ps)
  show ?case
  proof (cases "fst p = k")
    case True
    with Cons.prems show ?thesis
      by (cases p) (auto simp: tier_tickers_Cons index_concat_frames)
  next
    case False
    with Cons.prems have m: "map_of ps k = Some old" by (cases p) auto
    have d: "distinct (tier_tickers (dict_set k (concat_frames old new) ps))"
      using Cons m by (auto simp: tier_tickers_Cons)
    have "set (index (snd p)) \<inter> set (tier_tickers (dict_set k (concat_frames old new) ps)) = {}"
      using set_tier_dict_set_concat[OF m, of new] Cons.prems by (auto simp: tier_tickers_Cons)
    with d False Cons.prems show ?thesis by (auto simp: tier_tickers_Cons)
  qed
qed

lemma premium_first_inv:
  "premium_inv st \<Longrightarrow> \<forall>p\<in>set triggers. distinct (index (snd p)) \<Longrightarrow>
   premium_inv (premium_first triggers st)"
proof (induction triggers st rule: premium_first.induct)
  case (1 st)
  then show ?case by simp
next
  case (2 name df rest chosen prem)
  show ?case
  proof (cases "rows df")
    case Nil
    with 2 show ?thesis by simp
  next
    case (Cons r0 rs)
    show ?thesis
    proof (cases "fcard chosen < 3 \<and> \<not> ticker r0 |\<in>| chosen")
      case False
      with 2 Cons show ?thesis by auto
    next
      case True
      have di: "distinct (index (loc df (ticker r0)))"
        using 2 by (simp add: distinct_index_loc)
      have si: "set (index (loc df (ticker r0))) \<subseteq> {ticker r0}" by (rule set_index_loc)
      from True 2(4) have nin: "ticker r0 \<notin> set (tier_tickers prem)"
        by (auto simp: premium_inv_def)
      have "premium_inv (finsert (ticker r0) chosen, dict_set name (loc df (ticker r0)) prem)"
        unfolding premium_inv_def
      proof (intro conjI)
        show "distinct (tier_tickers (snd (finsert (ticker r0) chosen, dict_set name (loc df (ticker r0)) prem)))"
          using 2(4) di si nin by (auto intro!: distinct_tier_dict_set simp: premium_inv_def)
        show "set (tier_tickers (snd (finsert (ticker r0) chosen, dict_set name (loc df (ticker r0)) prem)))
              \<subseteq> fset (fst (finsert (ticker r0) chosen, dict_set name (loc df (ticker r0)) prem))"
          using set_tier_dict_set[of name "loc df (ticker r0)" prem] si 2(4)
          by (auto simp: premium_inv_def)
        show "fcard (fst (finsert (ticker r0) chosen, dict_set name (loc df (ticker r0)) prem)) \<le> 3"
          using True by (simp add: fcard_finsert_if)
      qed
      with 2 Cons True show ?thesis by auto
    qed
  qed
qed

lemma distinct_index_get_table:
  "\<forall>p\<in>set triggers. distinct (index (snd p)) \<Longrightarrow> distinct (index (get_table triggers n))"
  by (auto simp: get_table_def empty_frame_def index_def split: option.splits dest!: map_of_SomeD)

lemma premium_fill_inv:
  "premium_inv st \<Longrightarrow> \<forall>p\<in>set triggers. distinct (index (snd p)) \<Longrightarrow>
   premium_inv (premium_fill triggers pool st)"
proof (induction triggers pool st rule: premium_fill.induct)
  case (1 triggers st)
  then show ?case by simp
next
  case (2 triggers n t s rest chosen prem)
  show ?case
  proof (cases "\<not> t |\<in>| chosen \<and> fcard chosen < 3")
    case False
    with 2 show ?thesis by auto
  next
    case True
    let ?new = "loc (get_table triggers n) t"
    let ?prem' = "(case map_of prem n of
                 Some old \<Rightarrow> dict_set n (concat_frames old ?new) prem
               | None \<Rightarrow> dict_set n ?new prem)"
    have di: "distinct (index ?new)"
      using 2(4) by (simp add: distinct_index_loc distinct_index_get_table)
    have si: "set (index ?new) \<subseteq> {t}" by (rule set_index_loc)
    from True 2(3) have nin: "t \<notin> set (tier_tickers prem)"
      by (auto simp: premium_inv_def)
    have dj: "set (index ?new) \<inter> set (tier_tickers prem) = {}"
      using si nin by auto
    have dp: "distinct (tier_tickers prem)" using 2(3) by (simp add: premium_inv_def)
    have a: "distinct (tier_tickers ?prem')"
    proof (cases "map_of prem n")
      case None
      then show ?thesis using distinct_tier_dict_set[OF dp di dj] by simp
    next
      case (Some old)
      then show ?thesis using distinct_tier_dict_set_concat[OF Some dp di dj] by simp
    qed
    have b: "set (tier_tickers ?prem') \<subseteq> fset (finsert t chosen)"
    proof (cases "map_of prem n")
      case None
      then show ?thesis using set_tier_dict_set[of n ?new prem] si 2(3)
        by (auto simp: premium_inv_def)
    next
      case (Some old)
      then show ?thesis using set_tier_dict_set_concat[OF Some, of ?new] si 2(3)
        by (auto simp: premium_inv_def)
    qed
    have c: "fcard (finsert t chosen) \<le> 3" using True by (simp add: fcard_finsert_if)
    have "premium_inv (finsert t chosen, ?prem')"
      using a b c by (simp add: premium_inv_def)
    with 2 True show ?thesis by auto
  qed
qed

lemma premium_result_inv:
  assumes "\<forall>p\<in>set triggers. distinct (index (snd p))"
  shows "\<exists>chosen. premium_inv (chosen, premium_result triggers)"
proof -
  have i0: "premium_inv ({||}, [] :: ('a \<times> frame) list)"
    by (simp add: premium_inv_def tier_tickers_Nil fcard_fempty)
  have i1: "premium_inv (premium_first triggers ({||}, []))"
    by (rule premium_first_inv[OF i0 assms])
  have i2: "premium_inv (premium_fill triggers (sorted_pool triggers) (premium_first triggers ({||}, [])))"
    by (rule premium_fill_inv[OF i1 assms])
  show ?thesis
  proof (cases "fcard (fst (premium_first triggers ({||}, []))) < 3")
    case True
    then have "premium_result triggers = snd (premium_fill triggers (sorted_pool triggers) (premium_first triggers ({||}, [])))"
      by (simp add: premium_result_def Let_def)
    with i2 show ?thesis
      by (metis prod.collapse)
  next
    case False
    then have "premium_result triggers = snd (premium_first triggers ({||}, []))"
      by (simp add: premium_result_def Let_def)
    with i1 show ?thesis by (metis prod.collapse)
  qed
qed

text \<open>
  Claim C2: for trigger result tables that are keyed by ticker (no table lists a ticker
  twice), the premium mapping returned by \<open>select_final_tickers\<close> holds each ticker at
  most once over all its categories, and it holds at most three distinct tickers.
\<close>

theorem premium_no_duplicate_ticker:
  assumes "\<forall>p\<in>set triggers. distinct (index (snd p))"
  shows "distinct (tier_tickers (premium (select_final_tickers triggers)))
       \<and> card (set (tier_tickers (premium (select_final_tickers triggers)))) \<le> 3"
proof -
  obtain chosen where inv: "premium_inv (chosen, premium_result triggers)"
    using premium_result_inv[OF assms] by blast
  have "card (set (tier_tickers (premium_result triggers))) \<le> card (fset chosen)"
    using inv by (auto simp: premium_inv_def intro!: card_mono)
  also have "\<dots> \<le> 3" using inv by (simp add: premium_inv_def fcard.rep_eq)
  finally show ?thesis using inv by (simp add: select_final_tickers_def premium_inv_def)
qed

theorem premium_no_duplicate_ticker_witness:
  "distinct (tier_tickers (premium (select_final_tickers shared_top_triggers)))
   \<and> card (set (tier_tickers (premium (select_final_tickers shared_top_triggers)))) \<le> 3"
  by (rule premium_no_duplicate_ticker)
     (simp add: shared_top_triggers_def scored_table_def scored_row_def empty_frame_def index_def)

lemma fle_refl: "a \<noteq> NaN \<Longrightarrow> fle a a"
  by (cases a) simp_all

lemma fle_trans: "fle a b \<Longrightarrow> fle b c \<Longrightarrow> fle a c"
  by (cases a; cases b; cases c) simp_all

lemma flt_imp_fle: "flt a b \<Longrightarrow> fle a b"
  by (cases a; cases b) simp_all

lemma not_flt_imp_fle: "a \<noteq> NaN \<Longrightarrow> b \<noteq> NaN \<Longrightarrow> \<not> flt a b \<Longrightarrow> fle b a"
  by (cases a; cases b) simp_all

lemma set_insort_desc: "set (insort_desc in_front k x ys) = insert x (set ys)"
  by (induction ys) auto

lemma set_sort_desc: "set (sort_desc in_front k xs) = set xs"
  by (induction xs) (simp_all add: sort_desc_def set_insort_desc)

lemma distinct_map_insort_desc:
  "distinct (map f (insort_desc in_front k x ys)) = distinct (map f (x # ys))"
  by (induction ys) (auto simp: set_insort_desc)

lemma distinct_map_sort_desc:
  "distinct (map f (sort_desc in_front k xs)) = distinct (map f xs)"
  by (induction xs) (simp_all add: sort_desc_def distinct_map_insort_desc set_insort_desc
      del: insort_desc.simps, simp_all add: set_sort_desc[unfolded sort_desc_def])

lemma length_insort_desc: "length (insort_desc in_front k x ys) = Suc (length ys)"
  by (induction ys) auto

lemma length_sort_desc: "length (sort_desc in_front k xs) = length xs"
  by (induction xs) (simp_all add: sort_desc_def length_insort_desc)

lemma desc_sorted_insort:
  "k x \<noteq> NaN \<Longrightarrow> \<forall>y\<in>set ys. k y \<noteq> NaN \<Longrightarrow> desc_sorted k ys \<Longrightarrow>
   desc_sorted k (insort_desc (\<lambda>a b. flt b a) k x ys)"
proof (induction ys)
  case Nil
  then show ?case by (simp add: desc_sorted_def)
next
  case (Cons y ys)
  show ?case
  proof (cases "flt (k x) (k y)")
    case True
    have "desc_sorted k (insort_desc (\<lambda>a b. flt b a) k x ys)"
      using Cons by (simp add: desc_sorted_def)
    moreover have "\<forall>z\<in>set (insort_desc (\<lambda>a b. flt b a) k x ys). fle (k z) (k y)"
      using Cons.prems True by (auto simp: set_insort_desc desc_sorted_def flt_imp_fle)
    ultimately show ?thesis using True by (simp add: desc_sorted_def)
  next
    case False
    then have xy: "fle (k y) (k x)" using Cons.prems by (auto intro: not_flt_imp_fle)
    have "\<forall>z\<in>set ys. fle (k z) (k x)"
      using Cons.prems xy by (auto simp: desc_sorted_def intro: fle_trans)
    with False xy Cons.prems show ?thesis by (simp add: desc_sorted_def)
  qed
qed

lemma desc_sorted_py_sort:
  "\<forall>x\<in>set xs. k x \<noteq> NaN \<Longrightarrow> desc_sorted k (py_sort_desc k xs)"
proof (induction xs)
  case Nil
  then show ?case by (simp add: py_sort_desc_def sort_desc_def desc_sorted_def)
next
  case (Cons x xs)
  have "desc_sorted k (insort_desc (\<lambda>a b. flt b a) k x (py_sort_desc k xs))"
    using Cons by (intro desc_sorted_insort) (auto simp: py_sort_desc_def set_sort_desc)
  then show ?case by (simp add: py_sort_desc_def sort_desc_def)
qed

lemma desc_sorted_head:
  "desc_sorted k (x # xs) \<Longrightarrow> k x \<noteq> NaN \<Longrightarrow> \<forall>e\<in>set (x # xs). fle (k e) (k x)"
  by (auto simp: desc_sorted_def fle_refl)


lemma collect_table_inv:
  "pool_inv st \<Longrightarrow> pool_inv (collect_table name df idx st)"
  by (induction name df idx st rule: collect_table.induct)
     (auto simp: pool_inv_def entry_ticker_def)

lemma collect_table_seen:
  "fset (fst (collect_table name df idx st)) = fset (fst st) \<union> set idx"
  by (induction name df idx st rule: collect_table.induct) auto

lemma collect_table_entries:
  "e \<in> set (snd (collect_table name df idx st)) \<Longrightarrow>
   e \<in> set (snd st) \<or> (entry_ticker e \<notin> fset (fst st) \<and> entry_ticker e \<in> set idx \<and> fst e = name
      \<and> entry_score e = score_at df (entry_ticker e))"
  by (induction name df idx st rule: collect_table.induct)
     (auto simp: entry_ticker_def entry_score_def split: if_splits)

lemma collect_inv: "pool_inv st \<Longrightarrow> pool_inv (collect triggers st)"
  by (induction triggers st rule: collect.induct) (auto simp: collect_table_inv)

lemma collect_seen:
  "fset (fst (collect triggers st)) = fset (fst st) \<union> (\<Union>p\<in>set triggers. set (index (snd p)))"
  by (induction triggers st rule: collect.induct)
     (auto simp: collect_table_seen is_empty_def index_def)

lemma first_listed_Cons:
  "first_listed rest e \<Longrightarrow> entry_ticker e \<notin> set (index (snd p)) \<Longrightarrow> first_listed (p # rest) e"
  unfolding first_listed_def
  apply (elim exE conjE)
  subgoal for pre df post
    by (rule exI[of _ "p # pre"], rule exI[of _ df], rule exI[of _ post]) simp
  done

lemma first_listed_here:
  "entry_ticker e \<in> set (index df) \<Longrightarrow> entry_score e = score_at df (entry_ticker e) \<Longrightarrow>
   first_listed ((fst e, df) # rest) e"
  unfolding first_listed_def
  by (rule exI[of _ "[]"], rule exI[of _ df], rule exI[of _ rest]) simp

lemma collect_entries:
  "e \<in> set (snd (collect triggers st)) \<Longrightarrow>
   e \<in> set (snd st) \<or> (entry_ticker e \<notin> fset (fst st) \<and> first_listed triggers e)"
proof (induction triggers st rule: collect.induct)
  case (1 st)
  then show ?case by simp
next
  case (2 name df rest st)
  let ?st1 = "if \<not> is_empty df then collect_table name df (index df) st else st"
  have s1: "fset (fst ?st1) = fset (fst st) \<union> set (index df)"
    by (auto simp: collect_table_seen is_empty_def index_def)
  from 2 have "e \<in> set (snd ?st1) \<or> (entry_ticker e \<notin> fset (fst ?st1) \<and> first_listed rest e)"
    by simp
  then show ?case
  proof
    assume a: "e \<in> set (snd ?st1)"
    show ?thesis
    proof (cases "is_empty df")
      case True
      with a show ?thesis by simp
    next
      case False
      with a have "e \<in> set (snd (collect_table name df (index df) st))" by simp
      from collect_table_entries[OF this] show ?thesis
        using first_listed_here[of e df rest] by auto
    qed
  next
    assume b: "entry_ticker e \<notin> fset (fst ?st1) \<and> first_listed rest e"
    with s1 have "entry_ticker e \<notin> fset (fst st)" "entry_ticker e \<notin> set (index df)" by auto
    with b show ?thesis using first_listed_Cons[of rest e "(name, df)"] by simp
  qed
qed

lemma filter_eq_single: "distinct xs \<Longrightarrow> t \<in> set xs \<Longrightarrow> filter (\<lambda>x. x = t) xs = [t]"
  by (induction xs) (auto simp: filter_empty_conv)

lemma get_table_split:
  "distinct (map fst (pre @ (n, df) # post)) \<Longrightarrow> get_table (pre @ (n, df) # post) n = df"
proof -
  assume d: "distinct (map fst (pre @ (n, df) # post))"
  then have "map_of (pre @ (n, df) # post) n = Some df"
    by (intro map_of_is_SomeI) auto
  then show ?thesis by (simp add: get_table_def)
qed

lemma first_listed_table:
  "first_listed triggers e \<Longrightarrow> distinct (map fst triggers) \<Longrightarrow>
   (fst e, get_table triggers (fst e)) \<in> set triggers
   \<and> entry_ticker e \<in> set (index (get_table triggers (fst e)))
   \<and> entry_score e = score_at (get_table triggers (fst e)) (entry_ticker e)"
proof -
  assume fl: "first_listed triggers e" and d: "distinct (map fst triggers)"
  from fl obtain pre df post where
    t: "triggers = pre @ (fst e, df) # post" and i: "entry_ticker e \<in> set (index df)"
    and s: "entry_score e = score_at df (entry_ticker e)"
    unfolding first_listed_def by blast
  from d have "distinct (map fst (pre @ (fst e, df) # post))" unfolding t .
  from get_table_split[OF this] have g: "get_table triggers (fst e) = df" unfolding t .
  from t have "(fst e, df) \<in> set triggers" by simp
  with g i s show ?thesis by simp
qed

lemma sorted_pool_inv:
  "distinct (map entry_ticker (sorted_pool triggers))
   \<and> set (map entry_ticker (sorted_pool triggers)) = (\<Union>p\<in>set triggers. set (index (snd p)))"
proof -
  have "pool_inv (collect triggers ({||}, []))"
    by (rule collect_inv) (simp add: pool_inv_def)
  moreover have "fset (fst (collect triggers ({||}, []))) = (\<Union>p\<in>set triggers. set (index (snd p)))"
    by (simp add: collect_seen)
  ultimately show ?thesis
    by (simp add: sorted_pool_def py_sort_desc_def distinct_map_sort_desc set_sort_desc pool_inv_def)
qed

lemma sorted_pool_first_listed:
  "e \<in> set (sorted_pool triggers) \<Longrightarrow> first_listed triggers e"
  using collect_entries[of e triggers "({||}, [])"]
  by (simp add: sorted_pool_def py_sort_desc_def set_sort_desc)

lemma free_picks_Cons:
  assumes "sorted_pool triggers = e # rest" "distinct (map fst triggers)"
    "\<forall>p\<in>set triggers. distinct (index (snd p))"
  shows "tier_picks (free (select_final_tickers triggers)) = [(fst e, entry_ticker e)]"
proof -
  have fl: "first_listed triggers e" using assms(1) sorted_pool_first_listed[of e triggers] by simp
  from first_listed_table[OF fl assms(2)] assms(3)
  have "distinct (index (get_table triggers (fst e)))"
    and "entry_ticker e \<in> set (index (get_table triggers (fst e)))" by auto
  then have "index (loc (get_table triggers (fst e)) (entry_ticker e)) = [entry_ticker e]"
    by (simp add: index_loc filter_eq_single)
  then show ?thesis using assms(1)
    by (cases e) (simp add: select_final_tickers_def free_result_def tier_picks_def entry_ticker_def)
qed

lemma keys_dict_set: "fst ` set (dict_set k v ps) = insert k (fst ` set ps)"
  by (induction ps) auto

lemma tier_tickers_dict_set_new:
  "k \<notin> fst ` set ps \<Longrightarrow> tier_tickers (dict_set k v ps) = tier_tickers ps @ index v"
  by (induction ps) (auto simp: tier_tickers_Cons tier_tickers_Nil)

lemma set_tier_dict_set_concat_eq:
  "map_of ps k = Some old \<Longrightarrow>
   set (tier_tickers (dict_set k (concat_frames old new) ps)) = set (tier_tickers ps) \<union> set (index new)"
  by (induction ps) (auto simp: tier_tickers_Cons tier_tickers_Nil index_concat_frames split: if_splits)

lemma set_index_loc_mem: "t \<in> set (index df) \<Longrightarrow> set (index (loc df t)) = {t}"
  by (auto simp: index_loc)

lemma premium_first_chosen:
  "distinct (map fst triggers) \<Longrightarrow> fst ` set (snd st) \<inter> set (map fst triggers) = {} \<Longrightarrow>
   fset (fst st) = set (tier_tickers (snd st)) \<Longrightarrow>
   fset (fst (premium_first triggers st)) = set (tier_tickers (snd (premium_first triggers st)))"
proof (induction triggers st rule: premium_first.induct)
  case (1 st)
  then show ?case by simp
next
  case (2 name df rest chosen prem)
  from 2(4) have dr: "distinct (map fst rest)" and nr: "name \<notin> set (map fst rest)" by simp_all
  from 2(5) have np: "name \<notin> fst ` set prem" and kr: "fst ` set prem \<inter> set (map fst rest) = {}"
    by auto
  show ?case
  proof (cases "rows df")
    case Nil
    with 2(1)[OF Nil dr] kr 2(6) show ?thesis by simp
  next
    case (Cons r0 rs)
    show ?thesis
    proof (cases "fcard chosen < 3 \<and> \<not> ticker r0 |\<in>| chosen")
      case False
      with 2(3)[OF Cons False dr] kr 2(6) Cons show ?thesis by auto
    next
      case True
      let ?prem = "dict_set name (loc df (ticker r0)) prem"
      have k: "fst ` set (snd (finsert (ticker r0) chosen, ?prem)) \<inter> set (map fst rest) = {}"
        using kr nr by (auto simp: keys_dict_set)
      have "ticker r0 \<in> set (index df)" using Cons by (simp add: index_def)
      then have "set (index (loc df (ticker r0))) = {ticker r0}" by (rule set_index_loc_mem)
      then have c: "fset (fst (finsert (ticker r0) chosen, ?prem))
          = set (tier_tickers (snd (finsert (ticker r0) chosen, ?prem)))"
        using 2(6) np by (simp add: tier_tickers_dict_set_new)
      from 2(2)[OF Cons True dr k c] Cons True show ?thesis by simp
    qed
  qed
qed

lemma premium_fill_mono:
  "set (tier_tickers (snd st)) \<subseteq> set (tier_tickers (snd (premium_fill triggers pool st)))"
proof (induction triggers pool st rule: premium_fill.induct)
  case (1 triggers st)
  then show ?case by simp
next
  case (2 triggers n t s rest chosen prem)
  show ?case
  proof (cases "\<not> t |\<in>| chosen \<and> fcard chosen < 3")
    case False
    with 2(2) show ?thesis by auto
  next
    case True
    let ?new = "loc (get_table triggers n) t"
    let ?prem' = "(case map_of prem n of
                 Some old \<Rightarrow> dict_set n (concat_frames old ?new) prem
               | None \<Rightarrow> dict_set n ?new prem)"
    have "set (tier_tickers prem) \<subseteq> set (tier_tickers ?prem')"
    proof (cases "map_of prem n")
      case None
      then have "n \<notin> fst ` set prem" by (simp add: map_of_eq_None_iff)
      with None show ?thesis by (simp add: tier_tickers_dict_set_new)
    next
      case (Some old)
      then show ?thesis by (simp add: set_tier_dict_set_concat_eq)
    qed
    with 2(1)[OF True] True show ?thesis by auto
  qed
qed

lemma premium_fill_head:
  assumes "fset chosen = set (tier_tickers prem)" "fcard chosen < 3"
    "t \<in> set (index (get_table triggers n))"
  shows "t \<in> set (tier_tickers (snd (premium_fill triggers ((n, t, s) # rest) (chosen, prem))))"
proof (cases "t |\<in>| chosen")
  case True
  then have "t \<in> set (tier_tickers prem)" using assms(1) by auto
  with premium_fill_mono[of "(chosen, prem)" triggers "(n, t, s) # rest"] show ?thesis by auto
next
  case False
  let ?new = "loc (get_table triggers n) t"
  let ?prem' = "(case map_of prem n of
                 Some old \<Rightarrow> dict_set n (concat_frames old ?new) prem
               | None \<Rightarrow> dict_set n ?new prem)"
  have tn: "t \<in> set (index ?new)" using assms(3) by (simp add: set_index_loc_mem)
  have "t \<in> set (tier_tickers ?prem')"
  proof (cases "map_of prem n")
    case None
    then have "n \<notin> fst ` set prem" by (simp add: map_of_eq_None_iff)
    with None tn show ?thesis by (simp add: tier_tickers_dict_set_new)
  next
    case (Some old)
    with tn show ?thesis by (simp add: set_tier_dict_set_concat_eq)
  qed
  with premium_fill_mono[of "(finsert t chosen, ?prem')" triggers rest] False assms(2)
  show ?thesis by auto
qed

text \<open>
  Claim C1, as amended. The dict of result tables has one table per category name, each
  table is keyed by ticker, and no score is NaN. Then:
  \<^item> the pool holds one entry per distinct ticker over all tables, not one per
    ticker-per-category occurrence;
  \<^item> every entry comes from the first category, in dict order, that lists its ticker,
    with the score of that category;
  \<^item> the free tier is empty exactly when the pool is empty;
  \<^item> otherwise the free tier holds exactly one (category, ticker) pair, that of a
    pool entry whose score no pool entry exceeds.
\<close>

theorem free_pick_is_pool_maximum:
  assumes names: "distinct (map fst triggers)"
    and keyed: "\<forall>p\<in>set triggers. distinct (index (snd p))"
    and scores: "\<forall>p\<in>set triggers. \<forall>t\<in>set (index (snd p)). score_at (snd p) t \<noteq> NaN"
  shows "distinct (map entry_ticker (sorted_pool triggers))
    \<and> set (map entry_ticker (sorted_pool triggers)) = (\<Union>p\<in>set triggers. set (index (snd p)))
    \<and> (\<forall>e\<in>set (sorted_pool triggers). first_listed triggers e)
    \<and> ((tier_picks (free (select_final_tickers triggers)) = []) = (sorted_pool triggers = []))
    \<and> (sorted_pool triggers \<noteq> [] \<longrightarrow>
         (\<exists>e\<in>set (sorted_pool triggers).
            tier_picks (free (select_final_tickers triggers)) = [(fst e, entry_ticker e)]
            \<and> (\<forall>e'\<in>set (sorted_pool triggers). fle (entry_score e') (entry_score e))))"
proof -
  have nn: "entry_score e \<noteq> NaN" if "e \<in> set (sorted_pool triggers)" for e
  proof -
    from first_listed_table[OF sorted_pool_first_listed[OF that] names]
    have m: "(fst e, get_table triggers (fst e)) \<in> set triggers"
      and t: "entry_ticker e \<in> set (index (get_table triggers (fst e)))"
      and s: "entry_score e = score_at (get_table triggers (fst e)) (entry_ticker e)" by simp_all
    from scores m have "\<forall>t\<in>set (index (get_table triggers (fst e))).
        score_at (get_table triggers (fst e)) t \<noteq> NaN"
      by (metis snd_conv)
    with t s show ?thesis by simp
  qed
  have srt: "desc_sorted entry_score (sorted_pool triggers)"
  proof -
    have "\<forall>x\<in>set (snd (collect triggers ({||}, []))). entry_score x \<noteq> NaN"
      using nn by (simp add: sorted_pool_def py_sort_desc_def set_sort_desc)
    then have "desc_sorted entry_score (py_sort_desc entry_score (snd (collect triggers ({||}, []))))"
      by (rule desc_sorted_py_sort)
    then show ?thesis by (simp add: sorted_pool_def)
  qed
  have d: "sorted_pool triggers \<noteq> [] \<longrightarrow>
         (\<exists>e\<in>set (sorted_pool triggers).
            tier_picks (free (select_final_tickers triggers)) = [(fst e, entry_ticker e)]
            \<and> (\<forall>e'\<in>set (sorted_pool triggers). fle (entry_score e') (entry_score e)))"
  proof
    assume "sorted_pool triggers \<noteq> []"
    then obtain e rest where p: "sorted_pool triggers = e # rest" by (cases "sorted_pool triggers") auto
    have "\<forall>e'\<in>set (e # rest). fle (entry_score e') (entry_score e)"
      using desc_sorted_head[of entry_score e rest] srt nn[of e] p by simp
    with free_picks_Cons[OF p names keyed] p
    show "\<exists>e\<in>set (sorted_pool triggers).
            tier_picks (free (select_final_tickers triggers)) = [(fst e, entry_ticker e)]
            \<and> (\<forall>e'\<in>set (sorted_pool triggers). fle (entry_score e') (entry_score e))"
      by auto
  qed
  have c: "(tier_picks (free (select_final_tickers triggers)) = []) = (sorted_pool triggers = [])"
  proof (cases "sorted_pool triggers")
    case Nil
    then show ?thesis by (simp add: select_final_tickers_def free_result_def tier_picks_def)
  next
    case (Cons e rest)
    with free_picks_Cons[OF Cons names keyed] show ?thesis by simp
  qed
  have b: "\<forall>e\<in>set (sorted_pool triggers). first_listed triggers e"
    using sorted_pool_first_listed by blast
  from sorted_pool_inv[of triggers] b c d
  show ?thesis by (intro conjI) simp_all
qed

theorem free_pick_is_pool_maximum_witness:
  "distinct (map entry_ticker (sorted_pool shared_top_triggers))
   \<and> (\<exists>e\<in>set (sorted_pool shared_top_triggers).
         tier_picks (free (select_final_tickers shared_top_triggers)) = [(fst e, entry_ticker e)]
       \<and> (\<forall>e'\<in>set (sorted_pool shared_top_triggers). fle (entry_score e') (entry_score e)))"
proof -
  have names: "distinct (map fst shared_top_triggers)" by code_simp
  have keyed: "\<forall>p\<in>set shared_top_triggers. distinct (index (snd p))" by code_simp
  have scores: "\<forall>p\<in>set shared_top_triggers. \<forall>t\<in>set (index (snd p)). score_at (snd p) t \<noteq> NaN"
    by code_simp
  have ne: "sorted_pool shared_top_triggers \<noteq> []" by code_simp
  from free_pick_is_pool_maximum[OF names keyed scores] ne show ?thesis by blast
qed

text \<open>
  Claim C1 as stated fails: ticker T occurs in two categories, the pool holds one entry
  for it and not two, and the free pick is T in category A with score 0.50 although T
  scores 0.95 in category B.
\<close>

theorem free_pick_counterexample:
  "sorted_pool dup_triggers = [(''A'', ''T'', Fin (50/100))]
   \<and> tier_picks (free (select_final_tickers dup_triggers)) = [(''A'', ''T'')]
   \<and> score_at (get_table dup_triggers ''B'') ''T'' = Fin (95/100)
   \<and> flt (score_at (get_table dup_triggers ''A'') ''T'') (score_at (get_table dup_triggers ''B'') ''T'')"
  by code_simp

text \<open>
  Claim C10: the premium passes never consult the free pick. Whenever the dict has one
  table per category name and the first premium pass leaves a slot open, the ticker of
  the free pick is also in the premium tier; and there are inputs where one ticker is
  in both tiers.
\<close>

theorem free_pick_not_excluded_from_premium:
  "(distinct (map fst triggers) \<and> fcard (fst (premium_first triggers ({||}, []))) < 3 \<longrightarrow>
      set (tier_tickers (free (select_final_tickers triggers)))
        \<subseteq> set (tier_tickers (premium (select_final_tickers triggers))))
   \<and> (\<exists>ts :: (string \<times> frame) list. \<exists>t.
         t \<in> set (tier_tickers (free (select_final_tickers ts)))
       \<and> t \<in> set (tier_tickers (premium (select_final_tickers ts))))"
proof (intro conjI impI)
  assume h: "distinct (map fst triggers) \<and> fcard (fst (premium_first triggers ({||}, []))) < 3"
  obtain chosen prem where st: "premium_first triggers ({||}, []) = (chosen, prem)"
    by (cases "premium_first triggers ({||}, [])") auto
  have c: "fset chosen = set (tier_tickers prem)"
    using premium_first_chosen[of triggers "({||}, [])"] h st by (simp add: tier_tickers_Nil)
  show "set (tier_tickers (free (select_final_tickers triggers)))
        \<subseteq> set (tier_tickers (premium (select_final_tickers triggers)))"
  proof (cases "sorted_pool triggers")
    case Nil
    then show ?thesis by (simp add: select_final_tickers_def free_result_def tier_tickers_Nil)
  next
    case (Cons e rest)
    obtain n t s where e: "e = (n, t, s)" by (cases e) auto
    have "first_listed triggers e" using Cons sorted_pool_first_listed[of e triggers] by simp
    from first_listed_table[OF this] h e
    have ti: "t \<in> set (index (get_table triggers n))" by (simp add: entry_ticker_def)
    have f: "set (tier_tickers (free (select_final_tickers triggers))) \<subseteq> {t}"
      using Cons e set_index_loc[of "get_table triggers n" t]
      by (simp add: select_final_tickers_def free_result_def tier_tickers_Cons tier_tickers_Nil)
    have "t \<in> set (tier_tickers (snd (premium_fill triggers ((n, t, s) # rest) (chosen, prem))))"
      using premium_fill_head[OF c _ ti] h st by simp
    then have "t \<in> set (tier_tickers (premium (select_final_tickers triggers)))"
      using h st Cons e by (simp add: select_final_tickers_def premium_result_def)
    with f show ?thesis by auto
  qed
next
  have "tier_tickers (free (select_final_tickers shared_top_triggers)) = [''T1'']" by code_simp
  moreover have "tier_tickers (premium (select_final_tickers shared_top_triggers)) = [''T1'', ''T2'', ''T3'']"
    by code_simp
  ultimately show "\<exists>ts :: (string \<times> frame) list. \<exists>t.
         t \<in> set (tier_tickers (free (select_final_tickers ts)))
       \<and> t \<in> set (tier_tickers (premium (select_final_tickers ts)))"
    by (intro exI[of _ shared_top_triggers] exI[of _ "''T1''"]) simp
qed

theorem free_pick_not_excluded_from_premium_witness:
  "tier_tickers (free (select_final_tickers shared_top_triggers)) = [''T1'']
   \<and> set (tier_tickers (free (select_final_tickers shared_top_triggers)))
        \<subseteq> set (tier_tickers (premium (select_final_tickers shared_top_triggers)))"
proof -
  have h: "distinct (map fst shared_top_triggers)
      \<and> fcard (fst (premium_first shared_top_triggers ({||}, []))) < 3" by code_simp
  have f: "tier_tickers (free (select_final_tickers shared_top_triggers)) = [''T1'']" by code_simp
  from free_pick_not_excluded_from_premium[of shared_top_triggers, THEN conjunct1, THEN mp, OF h] f
  show ?thesis by simp
qed

section \<open>Properties of the normalisation\<close>











lemma map_of_dict_set: "map_of (dict_set k v ps) = (map_of ps)(k \<mapsto> v)"
  by (induction ps) auto

lemma num_other_cell: "c \<noteq> k \<Longrightarrow> num (r\<lparr>cells := dict_set k v (cells r)\<rparr>) c = num r c"
  by (cases c) (simp_all add: map_of_dict_set)

lemma num_Norm_cell: "num (r\<lparr>cells := dict_set (Norm d) (FloatC x) (cells r)\<rparr>) (Norm d) = x"
  by (simp add: map_of_dict_set)


lemma rows_set_col:
  "rows (set_col c f df) = map (\<lambda>r. r\<lparr>cells := dict_set c (f r) (cells r)\<rparr>) (rows df)"
  by (simp add: set_col_def)

lemma col_set_col_other: "c \<noteq> k \<Longrightarrow> col (set_col k f df) c = col df c"
  by (simp add: col_def rows_set_col num_other_cell comp_def)


lemma plain_not_score: "plain_column c \<Longrightarrow> c \<noteq> CompositeScore"
  by (cases c) auto




section \<open>Properties of the name lookup\<close>






section \<open>Properties of the batch\<close>

lemma run_triggers_valid_mode:
  "trigger_time = ''morning'' \<or> trigger_time = ''afternoon'' \<Longrightarrow>
   run_triggers api trigger_time snapshot prev_snapshot cap_df \<noteq> Inr None"
  by (auto simp: run_triggers_def Let_def split: sum.splits)

lemma run_triggers_other_mode:
  "trigger_time \<noteq> ''morning'' \<Longrightarrow> trigger_time \<noteq> ''afternoon'' \<Longrightarrow>
   run_triggers api trigger_time snapshot prev_snapshot cap_df = Inr None"
  by (simp add: run_triggers_def Let_def)

lemma batch_body_requests:
  "ohlcv_requests (batch_body api day_before now trigger_time output_file d snapshot requests)
     = requests @ [previous_date api day_before d]"
  by (auto simp: batch_body_def Let_def split: sum.splits option.splits prod.splits)

lemma batch_body_abort:
  "outcome (batch_body api day_before now trigger_time output_file d snapshot requests) = Inl e \<Longrightarrow>
   written (batch_body api day_before now trigger_time output_file d snapshot requests) = None"
  by (auto simp: batch_body_def Let_def split: sum.splits option.splits prod.splits)

lemma batch_body_written:
  "written (batch_body api day_before now trigger_time output_file d snapshot requests) \<noteq> None \<Longrightarrow>
   \<exists>a. outcome (batch_body api day_before now trigger_time output_file d snapshot requests) = Inr (Some a)"
  by (auto simp: batch_body_def Let_def split: sum.splits option.splits prod.splits if_splits)

lemma batch_body_valid_mode:
  assumes "trigger_time = ''morning'' \<or> trigger_time = ''afternoon''"
  shows "(\<exists>e. outcome (batch_body api day_before now trigger_time output_file d snapshot requests) = Inl e)
       \<or> (\<exists>a. outcome (batch_body api day_before now trigger_time output_file d snapshot requests) = Inr (Some a))"
  using run_triggers_valid_mode[OF assms, of api]
  by (auto simp: batch_body_def Let_def split: sum.splits option.splits prod.splits)

lemma batch_body_other_mode:
  assumes "trigger_time \<noteq> ''morning''" "trigger_time \<noteq> ''afternoon''"
  shows "written (batch_body api day_before now trigger_time output_file d snapshot requests) = None
       \<and> ((\<exists>dd. outcome (batch_body api day_before now trigger_time output_file d snapshot requests) = Inl (NoOhlcvData dd))
          \<or> (\<exists>dd. outcome (batch_body api day_before now trigger_time output_file d snapshot requests) = Inl (NoMarketCapData dd))
          \<or> outcome (batch_body api day_before now trigger_time output_file d snapshot requests) = Inr None)"
  using run_triggers_other_mode[OF assms, of api]
  by (auto simp: batch_body_def Let_def get_previous_snapshot_def get_market_cap_df_def
      split: sum.splits option.splits prod.splits if_splits)

text \<open>
  Claim C6, as amended. Let \<open>d0\<close> be the resolved trade date.
  \<^item> If the snapshot of \<open>d0\<close> has no rows, the batch asks for a snapshot exactly once
    more, for a date \<open>d1\<close>. If that snapshot has no rows either, the batch raises the
    failure for \<open>d1\<close>, having asked for exactly these two snapshots, and writes no
    document. Otherwise it goes on with the snapshot of \<open>d1\<close>, and the only further
    snapshot it asks for is that of the day before.
  \<^item> If the snapshot of \<open>d0\<close> has rows, nothing is asked for twice: the only further
    snapshot is that of the day before.
  \<^item> Whenever the batch raises, no document is written; a document is written only
    together with a returned allocation.
  \<^item> With the mode \<^verbatim>\<open>morning\<close> or \<^verbatim>\<open>afternoon\<close> the batch raises or returns an
    allocation. With any other mode it writes no document and raises a data failure of
    a fetch or returns \<^verbatim>\<open>None\<close>.
\<close>

theorem snapshot_retry_once:
  assumes d0: "d0 = get_nearest_business_day_in_a_week api today_str"
    and R: "R = run_batch api day_before today_str now trigger_time output_file"
  shows "(is_empty (get_market_ohlcv_by_ticker api d0) \<longrightarrow>
            (\<exists>d1. take 2 (ohlcv_requests R) = [d0, d1]
               \<and> (is_empty (get_market_ohlcv_by_ticker api d1) \<longrightarrow>
                    outcome R = Inl (NoOhlcvData d1) \<and> ohlcv_requests R = [d0, d1]
                    \<and> written R = None)
               \<and> (\<not> is_empty (get_market_ohlcv_by_ticker api d1) \<longrightarrow>
                    R = batch_body api day_before now trigger_time output_file d1
                          (get_market_ohlcv_by_ticker api d1) [d0, d1]
                    \<and> ohlcv_requests R = [d0, d1, previous_date api day_before d1])))
       \<and> (\<not> is_empty (get_market_ohlcv_by_ticker api d0) \<longrightarrow>
            ohlcv_requests R = [d0, previous_date api day_before d0])
       \<and> (\<forall>e. outcome R = Inl e \<longrightarrow> written R = None)
       \<and> (written R \<noteq> None \<longrightarrow> (\<exists>a. outcome R = Inr (Some a)))
       \<and> (trigger_time = ''morning'' \<or> trigger_time = ''afternoon'' \<longrightarrow>
            (\<exists>e. outcome R = Inl e) \<or> (\<exists>a. outcome R = Inr (Some a)))
       \<and> (trigger_time \<noteq> ''morning'' \<and> trigger_time \<noteq> ''afternoon'' \<longrightarrow>
            written R = None
            \<and> ((\<exists>d. outcome R = Inl (NoOhlcvData d)) \<or> (\<exists>d. outcome R = Inl (NoMarketCapData d))
                 \<or> outcome R = Inr None))"
proof -
  define d1 where "d1 = get_nearest_business_day_in_a_week api d0"
  let ?body = "\<lambda>d reqs. batch_body api day_before now trigger_time output_file d
                 (get_market_ohlcv_by_ticker api d) reqs"
  let ?retry = "\<lambda>d1. take 2 (ohlcv_requests R) = [d0, d1]
               \<and> (is_empty (get_market_ohlcv_by_ticker api d1) \<longrightarrow>
                    outcome R = Inl (NoOhlcvData d1) \<and> ohlcv_requests R = [d0, d1]
                    \<and> written R = None)
               \<and> (\<not> is_empty (get_market_ohlcv_by_ticker api d1) \<longrightarrow>
                    R = batch_body api day_before now trigger_time output_file d1
                          (get_market_ohlcv_by_ticker api d1) [d0, d1]
                    \<and> ohlcv_requests R = [d0, d1, previous_date api day_before d1])"
  consider (both) "is_empty (get_market_ohlcv_by_ticker api d0)" "is_empty (get_market_ohlcv_by_ticker api d1)"
    | (retry) "is_empty (get_market_ohlcv_by_ticker api d0)" "\<not> is_empty (get_market_ohlcv_by_ticker api d1)"
    | (first) "\<not> is_empty (get_market_ohlcv_by_ticker api d0)" by blast
  then show ?thesis
  proof cases
    case both
    then have "R = \<lparr>outcome = Inl (NoOhlcvData d1), ohlcv_requests = [d0, d1], written = None\<rparr>"
      unfolding R by (simp add: run_batch_def get_snapshot_def Let_def d0[symmetric] d1_def[symmetric])
    with both have r: "?retry d1" and rest: "written R = None" "outcome R = Inl (NoOhlcvData d1)"
      by simp_all
    from r have "\<exists>d1. ?retry d1" by (rule exI)
    with both rest show ?thesis by simp
  next
    case retry
    then have r: "R = ?body d1 [d0, d1]"
      unfolding R by (simp add: run_batch_def get_snapshot_def Let_def d0[symmetric] d1_def[symmetric])
    have q: "ohlcv_requests R = [d0, d1, previous_date api day_before d1]"
      unfolding r by (simp add: batch_body_requests)
    with retry r have "?retry d1" by simp
    then have ex: "\<exists>d1. ?retry d1" by (rule exI)
    have rest: "(\<forall>e. outcome R = Inl e \<longrightarrow> written R = None)
       \<and> (written R \<noteq> None \<longrightarrow> (\<exists>a. outcome R = Inr (Some a)))
       \<and> (trigger_time = ''morning'' \<or> trigger_time = ''afternoon'' \<longrightarrow>
            (\<exists>e. outcome R = Inl e) \<or> (\<exists>a. outcome R = Inr (Some a)))
       \<and> (trigger_time \<noteq> ''morning'' \<and> trigger_time \<noteq> ''afternoon'' \<longrightarrow>
            written R = None
            \<and> ((\<exists>d. outcome R = Inl (NoOhlcvData d)) \<or> (\<exists>d. outcome R = Inl (NoMarketCapData d))
                 \<or> outcome R = Inr None))"
      unfolding r
      using batch_body_abort[of api day_before now trigger_time output_file d1 _ "[d0, d1]"]
        batch_body_written[of api day_before now trigger_time output_file d1 _ "[d0, d1]"]
        batch_body_valid_mode[of trigger_time api day_before now output_file d1 _ "[d0, d1]"]
        batch_body_other_mode[of trigger_time api day_before now output_file d1 _ "[d0, d1]"]
      by (intro conjI impI allI) simp_all
    from ex rest retry(1) show ?thesis by simp
  next
    case first
    then have r: "R = ?body d0 [d0]"
      unfolding R by (simp add: run_batch_def get_snapshot_def Let_def d0[symmetric])
    have rest: "ohlcv_requests R = [d0, previous_date api day_before d0]
       \<and> (\<forall>e. outcome R = Inl e \<longrightarrow> written R = None)
       \<and> (written R \<noteq> None \<longrightarrow> (\<exists>a. outcome R = Inr (Some a)))
       \<and> (trigger_time = ''morning'' \<or> trigger_time = ''afternoon'' \<longrightarrow>
            (\<exists>e. outcome R = Inl e) \<or> (\<exists>a. outcome R = Inr (Some a)))
       \<and> (trigger_time \<noteq> ''morning'' \<and> trigger_time \<noteq> ''afternoon'' \<longrightarrow>
            written R = None
            \<and> ((\<exists>d. outcome R = Inl (NoOhlcvData d)) \<or> (\<exists>d. outcome R = Inl (NoMarketCapData d))
                 \<or> outcome R = Inr None))"
      unfolding r
      using batch_body_requests[of api day_before now trigger_time output_file d0 _ "[d0]"]
        batch_body_abort[of api day_before now trigger_time output_file d0 _ "[d0]"]
        batch_body_written[of api day_before now trigger_time output_file d0 _ "[d0]"]
        batch_body_valid_mode[of trigger_time api day_before now output_file d0 _ "[d0]"]
        batch_body_other_mode[of trigger_time api day_before now output_file d0 _ "[d0]"]
      by (intro conjI impI allI) simp_all
    with first show ?thesis by simp
  qed
qed

theorem snapshot_retry_once_witness:
  "\<exists>d1. ohlcv_requests (run_batch (example_api all_names) example_day_before ''20240108''
                ''2024-01-08T09:10:00'' ''morning'' (Some ''out.json''))
           = [''20240108'', d1]
      \<and> outcome (run_batch (example_api all_names) example_day_before ''20240108''
             ''2024-01-08T09:10:00'' ''morning'' (Some ''out.json''))
           = Inl (NoOhlcvData d1)
      \<and> written (run_batch (example_api all_names) example_day_before ''20240108''
                ''2024-01-08T09:10:00'' ''morning'' (Some ''out.json'')) = None"
proof -
  let ?api = "example_api all_names"
  let ?R = "run_batch ?api example_day_before ''20240108''
              ''2024-01-08T09:10:00'' ''morning'' (Some ''out.json'')"
  have d0: "''20240108'' = get_nearest_business_day_in_a_week ?api ''20240108''" by code_simp
  have e: "is_empty (get_market_ohlcv_by_ticker ?api ''20240108'')" by code_simp
  from snapshot_retry_once[OF d0 refl, THEN conjunct1, THEN mp, OF e]
  obtain d1 where t: "take 2 (ohlcv_requests ?R) = [''20240108'', d1]"
    and f: "is_empty (get_market_ohlcv_by_ticker ?api d1) \<longrightarrow>
              outcome ?R = Inl (NoOhlcvData d1) \<and> ohlcv_requests ?R = [''20240108'', d1]
              \<and> written ?R = None" by blast
  have "d1 \<noteq> ''20240105''" and "d1 \<noteq> ''20240104''"
  proof -
    have "take 2 (ohlcv_requests ?R) = [''20240108'', ''20240108'']" by code_simp
    with t have "d1 = ''20240108''" by simp
    then show "d1 \<noteq> ''20240105''" and "d1 \<noteq> ''20240104''" by simp_all
  qed
  then have "is_empty (get_market_ohlcv_by_ticker ?api d1)"
    by (simp add: example_api_def is_empty_def)
  with f show ?thesis by blast
qed

text \<open>
  Claim C6 as stated fails. With the mode \<^verbatim>\<open>evening\<close> every fetch succeeds and the
  batch call neither returns an allocation nor raises; it returns \<^verbatim>\<open>None\<close>. And
  with the mode \<^verbatim>\<open>morning\<close> and a name lookup that fails for ticker A, the batch
  raises the failure of the lookup, which is not a failure for missing data.
\<close>

theorem unknown_mode_returns_nothing:
  "outcome (run_batch (example_api all_names) example_day_before ''20240105''
             ''2024-01-05T18:00:00'' ''evening'' (Some ''out.json'')) = Inr None
   \<and> written (run_batch (example_api all_names) example_day_before ''20240105''
               ''2024-01-05T18:00:00'' ''evening'' (Some ''out.json'')) = None
   \<and> outcome (run_batch (example_api names_but_A) example_day_before ''20240105''
                ''2024-01-05T09:10:00'' ''morning'' None)
       = Inl (LookupFailed ''A'')"
  by code_simp

section \<open>Properties of the output document\<close>

subsection \<open>The columns of the trigger results\<close>

lemma columns_set_col:
  "columns (set_col c f df) = (if c \<in> set (columns df) then columns df else columns df @ [c])"
  by (simp add: set_col_def)

lemma columns_where_rows: "columns (where_rows p df) = columns df"
  by (simp add: where_rows_def)

lemma columns_head: "columns (head n df) = columns df"
  by (simp add: head_def)

lemma columns_sort_values_desc: "columns (sort_values_desc c df) = columns df"
  by (simp add: sort_values_desc_def)

lemma columns_loc_list: "columns (loc_list df labels) = columns df"
  by (simp add: loc_list_def)

lemma columns_apply_absolute_filters: "columns (apply_absolute_filters m df) = columns df"
  by (simp add: apply_absolute_filters_def Let_def columns_where_rows)

lemma columns_normalize_col:
  "columns (normalize_col c df)
     = (if Norm c \<in> set (columns df) then columns df else columns df @ [Norm c])"
  by (simp add: normalize_col_def columns_set_col)

lemma columns_score3:
  "columns (score3 c1 w1 c2 w2 c3 w3 df)
     = (if CompositeScore \<in> set (columns df) then columns df else columns df @ [CompositeScore])"
  by (simp add: score3_def columns_set_col)

lemma columns_normalize_and_score:
  "\<not> is_empty df \<Longrightarrow>
   columns (normalize_and_score df rc ac rw aw)
     = columns (set_col CompositeScore (\<lambda>r. FloatC NaN)
         (set_col (Norm ac) (\<lambda>r. FloatC NaN) (set_col (Norm rc) (\<lambda>r. FloatC NaN) df)))"
  by (simp add: normalize_and_score_def Let_def columns_sort_values_desc columns_set_col)

lemma columns_merge_cap: "columns (merge_cap snapshot cap_df) = columns snapshot @ [MarketCap]"
  by (simp add: merge_cap_def)

lemma columns_empty_frame: "columns empty_frame = []"
  by (simp add: empty_frame_def)

lemma is_empty_empty_frame: "is_empty empty_frame"
  by (simp add: empty_frame_def is_empty_def)

lemma enhance_columns:
  "enhance_dataframe names a = Inr df \<Longrightarrow> \<not> is_empty df \<Longrightarrow>
   columns df = (if StockName \<in> set (columns a) then columns a else columns a @ [StockName])"
  by (auto simp: enhance_dataframe_def split: if_splits sum.splits)

lemmas columns_simps = columns_set_col columns_where_rows columns_head columns_sort_values_desc
  columns_loc_list columns_apply_absolute_filters columns_normalize_col columns_score3
  columns_normalize_and_score columns_merge_cap columns_empty_frame

lemma columns_volume_surge_metrics:
  "columns snapshot = [] \<Longrightarrow>
   columns (volume_surge_metrics snapshot prev_snapshot)
     = [VolumeRatio, VolumeGrowthPct, IntradayChangePct, DayOverDayChangePct, Rising]"
  by (simp add: volume_surge_metrics_def Let_def columns_simps)

lemma columns_volume_surge_scored:
  "columns snapshot = [] \<Longrightarrow> \<not> is_empty (volume_surge_scored snapshot prev_snapshot) \<Longrightarrow>
   columns (volume_surge_scored snapshot prev_snapshot)
     = [VolumeRatio, VolumeGrowthPct, IntradayChangePct, DayOverDayChangePct, Rising,
        Norm VolumeGrowthPct, Norm Volume, CompositeScore]"
  by (simp add: volume_surge_scored_def Let_def columns_simps columns_volume_surge_metrics
        is_empty_empty_frame split: if_splits)

lemma columns_trigger_morning_volume_surge:
  assumes "columns snapshot = []"
    and "trigger_morning_volume_surge names snapshot prev_snapshot top_n = Inr df"
    and "\<not> is_empty df"
  shows "columns df
     = [VolumeRatio, VolumeGrowthPct, IntradayChangePct, DayOverDayChangePct, Rising,
        Norm VolumeGrowthPct, Norm Volume, CompositeScore, StockName]"
proof -
  let ?scored = "volume_surge_scored snapshot prev_snapshot"
  let ?sel = "head 3 (sort_values_desc CompositeScore (where_rows (\<lambda>r. flag r Rising) (head top_n ?scored)))"
  from assms(2,3) have ne: "\<not> is_empty ?scored" and e: "enhance_dataframe names ?sel = Inr df"
    by (auto simp: trigger_morning_volume_surge_def Let_def is_empty_empty_frame split: if_splits)
  from enhance_columns[OF e assms(3)] columns_volume_surge_scored[OF assms(1) ne]
  show ?thesis by (simp add: columns_simps)
qed


lemma is_empty_where_rows: "is_empty df \<Longrightarrow> is_empty (where_rows p df)"
  by (simp add: is_empty_def where_rows_def)

lemma is_empty_head: "is_empty df \<Longrightarrow> is_empty (head n df)"
  by (simp add: is_empty_def head_def)

lemma is_empty_sort_values_desc: "is_empty (sort_values_desc c df) = is_empty df"
  using length_sort_desc[of nan_last "\<lambda>r. num r c" "rows df"]
  by (simp add: is_empty_def sort_values_desc_def flip: length_0_conv)

lemma is_empty_set_col: "is_empty (set_col c f df) = is_empty df"
  by (simp add: is_empty_def set_col_def)

lemma is_empty_normalize_col: "is_empty (normalize_col c df) = is_empty df"
  by (simp add: normalize_col_def is_empty_set_col)

lemma is_empty_score3: "is_empty (score3 c1 w1 c2 w2 c3 w3 df) = is_empty df"
  by (simp add: score3_def is_empty_set_col)

lemmas is_empty_simps = is_empty_sort_values_desc is_empty_set_col is_empty_normalize_col
  is_empty_score3 is_empty_empty_frame

lemma selection_nonempty:
  "\<not> is_empty (head m (sort_values_desc c (where_rows p (head n scored)))) \<Longrightarrow> \<not> is_empty scored"
  using is_empty_head is_empty_where_rows is_empty_sort_values_desc by blast

subsection \<open>Gap-up momentum\<close>

lemma columns_gap_up_metrics:
  "columns snapshot = [] \<Longrightarrow>
   columns (gap_up_metrics snapshot prev_snapshot)
     = [GapPct, IntradayChangePct, DayOverDayChangePct, RiseContinues]"
  by (simp add: gap_up_metrics_def Let_def columns_simps)

lemma columns_gap_up_scored:
  "columns snapshot = [] \<Longrightarrow> \<not> is_empty (gap_up_scored snapshot prev_snapshot) \<Longrightarrow>
   columns (gap_up_scored snapshot prev_snapshot)
     = [GapPct, IntradayChangePct, DayOverDayChangePct, RiseContinues,
        Norm GapPct, Norm IntradayChangePct, Norm TradeValue, CompositeScore]"
  by (simp add: gap_up_scored_def Let_def columns_simps columns_gap_up_metrics
        is_empty_simps split: if_splits)

lemma columns_trigger_morning_gap_up_momentum:
  assumes "columns snapshot = []"
    and "trigger_morning_gap_up_momentum names snapshot prev_snapshot top_n = Inr df"
    and "\<not> is_empty df"
  shows "columns df
     = [GapPct, IntradayChangePct, DayOverDayChangePct, RiseContinues,
        Norm GapPct, Norm IntradayChangePct, Norm TradeValue, CompositeScore, TotalMomentum,
        StockName]"
proof -
  let ?scored = "gap_up_scored snapshot prev_snapshot"
  let ?result = "where_rows (\<lambda>r. flag r RiseContinues)
                   (if \<not> is_empty ?scored then head top_n ?scored else ?scored)"
  let ?sel = "head 3 (sort_values_desc CompositeScore
                (set_col TotalMomentum (\<lambda>r. FloatC (fadd (num r GapPct) (num r IntradayChangePct))) ?result))"
  from assms(2,3) have r: "\<not> is_empty ?result" and e: "enhance_dataframe names ?sel = Inr df"
    by (auto simp: trigger_morning_gap_up_momentum_def Let_def is_empty_empty_frame split: if_splits)
  from r have ne: "\<not> is_empty ?scored" using is_empty_where_rows by (auto split: if_splits)
  from enhance_columns[OF e assms(3)] columns_gap_up_scored[OF assms(1) ne] ne
  show ?thesis by (simp add: columns_simps)
qed

subsection \<open>Value to market capitalisation\<close>

lemma columns_value_to_cap_metrics:
  "columns snapshot = [] \<Longrightarrow> \<not> is_empty (value_to_cap_metrics snapshot prev_snapshot cap_df) \<Longrightarrow>
   columns (value_to_cap_metrics snapshot prev_snapshot cap_df)
     = [MarketCap, ValueToCapPct, IntradayChangePct, DayOverDayChangePct, Rising]"
  by (simp add: value_to_cap_metrics_def Let_def columns_simps is_empty_simps split: if_splits)

lemma columns_value_to_cap_scored:
  "columns snapshot = [] \<Longrightarrow> \<not> is_empty (value_to_cap_scored snapshot prev_snapshot cap_df) \<Longrightarrow>
   columns (value_to_cap_scored snapshot prev_snapshot cap_df)
     = [MarketCap, ValueToCapPct, IntradayChangePct, DayOverDayChangePct, Rising,
        Norm ValueToCapPct, Norm TradeValue, Norm IntradayChangePct, CompositeScore]"
proof -
  assume c: "columns snapshot = []" and ne: "\<not> is_empty (value_to_cap_scored snapshot prev_snapshot cap_df)"
  let ?m = "value_to_cap_metrics snapshot prev_snapshot cap_df"
  from ne have "\<not> is_empty (where_rows (\<lambda>r. fge (num r MarketCap) (Fin 10000000000)) ?m)"
    by (auto simp: value_to_cap_scored_def Let_def is_empty_simps split: if_splits)
  then have m: "\<not> is_empty ?m" using is_empty_where_rows by blast
  from ne show ?thesis
    by (simp add: value_to_cap_scored_def Let_def columns_simps is_empty_simps
          columns_value_to_cap_metrics[OF c m] split: if_splits)
qed

lemma columns_trigger_morning_value_to_cap_ratio:
  assumes "columns snapshot = []"
    and "trigger_morning_value_to_cap_ratio names snapshot prev_snapshot cap_df top_n = Inr df"
    and "\<not> is_empty df"
  shows "columns df
     = [MarketCap, ValueToCapPct, IntradayChangePct, DayOverDayChangePct, Rising,
        Norm ValueToCapPct, Norm TradeValue, Norm IntradayChangePct, CompositeScore, StockName]"
proof -
  let ?scored = "value_to_cap_scored snapshot prev_snapshot cap_df"
  let ?sel = "head 3 (sort_values_desc CompositeScore (where_rows (\<lambda>r. flag r Rising) (head top_n ?scored)))"
  from assms(2,3) have ne: "\<not> is_empty ?scored" and e: "enhance_dataframe names ?sel = Inr df"
    by (auto simp: trigger_morning_value_to_cap_ratio_def Let_def is_empty_empty_frame
          split: if_splits sum.splits)
  from enhance_columns[OF e assms(3)] columns_value_to_cap_scored[OF assms(1) ne]
  show ?thesis by (simp add: columns_simps)
qed

subsection \<open>Daily rise\<close>

lemma columns_daily_rise_metrics:
  "columns snapshot = [] \<Longrightarrow>
   columns (daily_rise_metrics snapshot prev_snapshot) = [IntradayChangePct, DayOverDayChangePct]"
  by (simp add: daily_rise_metrics_def Let_def columns_simps)

lemma columns_daily_rise_scored:
  "columns snapshot = [] \<Longrightarrow> \<not> is_empty (daily_rise_scored snapshot prev_snapshot) \<Longrightarrow>
   columns (daily_rise_scored snapshot prev_snapshot)
     = [IntradayChangePct, DayOverDayChangePct, Norm IntradayChangePct, Norm TradeValue,
        CompositeScore]"
  by (simp add: daily_rise_scored_def Let_def columns_simps columns_daily_rise_metrics
        is_empty_empty_frame split: if_splits)

lemma columns_trigger_afternoon_daily_rise_top:
  assumes "columns snapshot = []"
    and "trigger_afternoon_daily_rise_top names snapshot prev_snapshot top_n = Inr df"
    and "\<not> is_empty df"
  shows "columns df
     = [IntradayChangePct, DayOverDayChangePct, Norm IntradayChangePct, Norm TradeValue,
        CompositeScore, StockName]"
proof -
  let ?scored = "daily_rise_scored snapshot prev_snapshot"
  from assms(2,3) have ne: "\<not> is_empty ?scored"
    and e: "enhance_dataframe names (head 3 (head top_n ?scored)) = Inr df"
    by (auto simp: trigger_afternoon_daily_rise_top_def Let_def is_empty_empty_frame split: if_splits)
  from enhance_columns[OF e assms(3)] columns_daily_rise_scored[OF assms(1) ne]
  show ?thesis by (simp add: columns_simps)
qed

subsection \<open>Closing strength\<close>

lemma columns_closing_strength_metrics:
  "columns snapshot = [] \<Longrightarrow>
   columns (closing_strength_metrics snapshot prev_snapshot)
     = [ClosingStrength, VolumeGrowthPct, IntradayChangePct, DayOverDayChangePct, VolumeUp, Rising]"
  by (simp add: closing_strength_metrics_def Let_def columns_simps)

lemma columns_closing_strength_scored:
  "columns snapshot = [] \<Longrightarrow> \<not> is_empty (closing_strength_scored snapshot prev_snapshot) \<Longrightarrow>
   columns (closing_strength_scored snapshot prev_snapshot)
     = [ClosingStrength, VolumeGrowthPct, IntradayChangePct, DayOverDayChangePct, VolumeUp, Rising,
        Norm ClosingStrength, Norm VolumeGrowthPct, Norm TradeValue, CompositeScore]"
  by (simp add: closing_strength_scored_def Let_def columns_simps columns_closing_strength_metrics
        is_empty_simps split: if_splits)

lemma columns_trigger_afternoon_closing_strength:
  assumes "columns snapshot = []"
    and "trigger_afternoon_closing_strength names snapshot prev_snapshot top_n = Inr df"
    and "\<not> is_empty df"
  shows "columns df
     = [ClosingStrength, VolumeGrowthPct, IntradayChangePct, DayOverDayChangePct, VolumeUp, Rising,
        Norm ClosingStrength, Norm VolumeGrowthPct, Norm TradeValue, CompositeScore, StockName]"
proof -
  let ?scored = "closing_strength_scored snapshot prev_snapshot"
  let ?result = "where_rows (\<lambda>r. flag r Rising)
                   (if \<not> is_empty ?scored then head top_n ?scored else ?scored)"
  from assms(2,3) have r: "\<not> is_empty ?result"
    and e: "enhance_dataframe names (head 3 (sort_values_desc CompositeScore ?result)) = Inr df"
    by (auto simp: trigger_afternoon_closing_strength_def Let_def is_empty_empty_frame split: if_splits)
  from r have ne: "\<not> is_empty ?scored" using is_empty_where_rows by (auto split: if_splits)
  from enhance_columns[OF e assms(3)] columns_closing_strength_scored[OF assms(1) ne] ne
  show ?thesis by (simp add: columns_simps)
qed

subsection \<open>The tables of the allocation\<close>

lemma set_dict_set: "set (dict_set k v ps) \<subseteq> insert (k, v) (set ps)"
  by (induction ps) auto

lemma from_tables_dict_set:
  "from_tables ts tier \<Longrightarrow> columns v = columns (get_table ts k) \<Longrightarrow>
   set (rows v) \<subseteq> set (rows (get_table ts k)) \<Longrightarrow> from_tables ts (dict_set k v tier)"
  unfolding from_tables_def using set_dict_set[of k v tier] by fastforce

lemma columns_loc: "columns (loc df t) = columns df"
  by (simp add: loc_def)

lemma rows_loc: "set (rows (loc df t)) \<subseteq> set (rows df)"
  by (auto simp: loc_def)

lemma from_tables_free: "from_tables ts (free_result ts)"
  by (auto simp: free_result_def from_tables_def columns_loc loc_def split: list.splits)

lemma get_table_member:
  "distinct (map fst ts) \<Longrightarrow> (n, df) \<in> set ts \<Longrightarrow> get_table ts n = df"
  by (simp add: get_table_def)

lemma premium_first_from_tables:
  "distinct (map fst ts) \<Longrightarrow> set rest \<subseteq> set ts \<Longrightarrow> from_tables ts (snd st) \<Longrightarrow>
   from_tables ts (snd (premium_first rest st))"
proof (induction rest st rule: premium_first.induct)
  case (1 st)
  then show ?case by simp
next
  case (2 name df rest chosen prem)
  from 2(4,5) have g: "get_table ts name = df" by (auto intro: get_table_member)
  from 2(5) have sub: "set rest \<subseteq> set ts" by simp
  show ?case
  proof (cases "rows df")
    case Nil
    with 2(1)[OF Nil 2(4) sub] 2(6) show ?thesis by simp
  next
    case (Cons r0 rs)
    show ?thesis
    proof (cases "fcard chosen < 3 \<and> \<not> ticker r0 |\<in>| chosen")
      case True
      have "from_tables ts (dict_set name (loc df (ticker r0)) prem)"
        using 2(6) g by (intro from_tables_dict_set) (simp_all add: columns_loc rows_loc)
      with 2(2)[OF Cons True 2(4) sub] Cons True show ?thesis by simp
    next
      case False
      with 2(3)[OF Cons False 2(4) sub] 2(6) Cons show ?thesis by auto
    qed
  qed
qed

lemma from_tables_lookup:
  "from_tables ts tier \<Longrightarrow> map_of tier n = Some old \<Longrightarrow>
   columns old = columns (get_table ts n) \<and> set (rows old) \<subseteq> set (rows (get_table ts n))"
  unfolding from_tables_def by (force dest: map_of_SomeD)

lemma premium_fill_from_tables:
  "from_tables ts (snd st) \<Longrightarrow> from_tables ts (snd (premium_fill ts pool st))"
proof (induction ts pool st rule: premium_fill.induct)
  case (1 triggers st)
  then show ?case by simp
next
  case (2 ts n t s rest chosen prem)
  show ?case
  proof (cases "\<not> t |\<in>| chosen \<and> fcard chosen < 3")
    case False
    with 2 show ?thesis by auto
  next
    case True
    let ?new = "loc (get_table ts n) t"
    let ?prem' = "(case map_of prem n of
                 Some old \<Rightarrow> dict_set n (concat_frames old ?new) prem
               | None \<Rightarrow> dict_set n ?new prem)"
    have "from_tables ts ?prem'"
    proof (cases "map_of prem n")
      case None
      then show ?thesis using 2(3) rows_loc[of "get_table ts n" t]
        by (simp add: from_tables_dict_set columns_loc)
    next
      case (Some old)
      from from_tables_lookup[OF _ Some, of ts] 2(3)
      have o: "columns old = columns (get_table ts n)"
        "set (rows old) \<subseteq> set (rows (get_table ts n))" by simp_all
      have "columns (concat_frames old ?new) = columns (get_table ts n)"
        using o by (simp add: concat_frames_def columns_loc)
      moreover have "set (rows (concat_frames old ?new)) \<subseteq> set (rows (get_table ts n))"
        using o rows_loc[of "get_table ts n" t] by (auto simp: concat_frames_def)
      ultimately show ?thesis using Some 2(3) by (simp add: from_tables_dict_set)
    qed
    with 2(1)[OF True] True show ?thesis by simp
  qed
qed

lemma from_tables_premium:
  "distinct (map fst ts) \<Longrightarrow> from_tables ts (premium_result ts)"
proof -
  assume d: "distinct (map fst ts)"
  have a: "from_tables ts (snd (premium_first ts ({||}, [])))"
    by (rule premium_first_from_tables[OF d]) (simp_all add: from_tables_def)
  show ?thesis
    using a premium_fill_from_tables[OF a]
    by (simp add: premium_result_def Let_def)
qed

lemma tier_document_member:
  "(cat, recs) \<in> set (tier_document tier) \<Longrightarrow>
   \<exists>f. (cat, f) \<in> set tier \<and> \<not> is_empty f \<and> recs = map (stock_info cat f) (rows f)"
  by (auto simp: tier_document_def)

lemma stock_info_fields:
  "map fst (stock_info cat f r) = common_fields @
     (if VolumeGrowthPct \<in> set (columns f) \<and> cat = MorningVolumeSurge then [''volume_increase'']
      else if GapPct \<in> set (columns f) then [''gap_rate'']
      else if ValueToCapPct \<in> set (columns f) then [''trade_value_ratio'', ''market_cap'']
      else if ClosingStrength \<in> set (columns f) then [''closing_strength'']
      else [])"
  by (simp add: stock_info_def common_fields_def)

lemma written_some:
  assumes "written (run_batch api day_before today_str now trigger_time output_file) = Some doc"
  shows "\<exists>d prev cap ts.
      run_triggers api trigger_time (get_market_ohlcv_by_ticker api d) prev cap = Inr (Some ts)
    \<and> doc_free doc = tier_document (free (select_final_tickers ts))
    \<and> doc_premium doc = tier_document (premium (select_final_tickers ts))"
proof -
  have b: "written (batch_body api day_before now trigger_time output_file d
             (get_market_ohlcv_by_ticker api d) reqs) = Some doc \<Longrightarrow> ?thesis" for d reqs
    by (fastforce simp: batch_body_def Let_def
          split: sum.splits option.splits prod.splits if_splits)
  from assms show ?thesis
    by (auto simp: run_batch_def get_snapshot_def Let_def split: if_splits dest: b)
qed

lemma run_triggers_some:
  assumes "run_triggers api trigger_time s p c = Inr (Some ts)"
  shows "(\<exists>r1 r2 r3. ts = [(MorningVolumeSurge, r1), (MorningGapUpMomentum, r2), (MorningValueToCap, r3)]
          \<and> trigger_morning_volume_surge (get_market_ticker_name api) s p 10 = Inr r1
          \<and> trigger_morning_gap_up_momentum (get_market_ticker_name api) s p 15 = Inr r2
          \<and> trigger_morning_value_to_cap_ratio (get_market_ticker_name api) s p c 10 = Inr r3)
       \<or> (\<exists>r1 r2 r3. ts = [(AfternoonDailyRiseTop, r1), (AfternoonClosingStrength, r2),
                            (AfternoonVolumeSurgeFlat, r3)]
          \<and> trigger_afternoon_daily_rise_top (get_market_ticker_name api) s p 15 = Inr r1
          \<and> trigger_afternoon_closing_strength (get_market_ticker_name api) s p 15 = Inr r2
          \<and> trigger_afternoon_volume_surge_flat (get_market_ticker_name api) s p 20 = Inr r3)"
  using assms by (auto simp: run_triggers_def Let_def split: if_splits sum.splits)

lemma from_tables_select:
  "distinct (map fst ts) \<Longrightarrow>
   from_tables ts (free (select_final_tickers ts)) \<and> from_tables ts (premium (select_final_tickers ts))"
  by (simp add: select_final_tickers_def from_tables_free from_tables_premium)

text \<open>
  Claim C7, as amended. The provider's snapshots carry the six snapshot columns only.
  Then every record of the free and of the premium tier of a written document starts
  with the fields code, name, current_price, change_rate, volume and trade_value, and
  after them
  \<^item> a record of the morning volume-surge category carries volume_increase,
  \<^item> a record of the gap-up category carries gap_rate,
  \<^item> a record of the value-to-cap category carries trade_value_ratio and market_cap,
  \<^item> a record of the closing-strength category carries closing_strength,
  \<^item> a record of the afternoon daily-rise category carries no further field.

  The first statement holds for the records of all six categories.
\<close>

theorem record_fields_by_category:
  assumes provider: "\<forall>d. columns (get_market_ohlcv_by_ticker api d) = []"
    and doc: "written (run_batch api day_before today_str now trigger_time output_file) = Some doc"
    and entry: "(cat, recs) \<in> set (doc_free doc) \<union> set (doc_premium doc)"
    and info: "info \<in> set recs"
  shows "take 6 (map fst info) = common_fields
       \<and> (cat = MorningVolumeSurge \<longrightarrow> map fst info = common_fields @ [''volume_increase''])
       \<and> (cat = MorningGapUpMomentum \<longrightarrow> map fst info = common_fields @ [''gap_rate''])
       \<and> (cat = MorningValueToCap \<longrightarrow>
            map fst info = common_fields @ [''trade_value_ratio'', ''market_cap''])
       \<and> (cat = AfternoonDailyRiseTop \<longrightarrow> map fst info = common_fields)
       \<and> (cat = AfternoonClosingStrength \<longrightarrow> map fst info = common_fields @ [''closing_strength''])"
proof -
  from written_some[OF doc] obtain d prev cap ts where
    rt: "run_triggers api trigger_time (get_market_ohlcv_by_ticker api d) prev cap = Inr (Some ts)"
    and fr: "doc_free doc = tier_document (free (select_final_tickers ts))"
    and pr: "doc_premium doc = tier_document (premium (select_final_tickers ts))" by blast
  let ?s = "get_market_ohlcv_by_ticker api d"
  let ?nm = "get_market_ticker_name api"
  have cs: "columns ?s = []" using provider by simp
  from run_triggers_some[OF rt] have dn: "distinct (map fst ts)" by auto
  from entry fr pr obtain tier where
    tier: "tier = free (select_final_tickers ts) \<or> tier = premium (select_final_tickers ts)"
    and m: "(cat, recs) \<in> set (tier_document tier)" by auto
  from tier from_tables_select[OF dn] have ft: "from_tables ts tier" by auto
  from tier_document_member[OF m] obtain f where
    f: "(cat, f) \<in> set tier" "\<not> is_empty f" "recs = map (stock_info cat f) (rows f)" by blast
  from ft f(1) have cf: "columns f = columns (get_table ts cat)"
    and rf: "set (rows f) \<subseteq> set (rows (get_table ts cat))"
    unfolding from_tables_def by force+
  from rf f(2) have ne: "\<not> is_empty (get_table ts cat)" by (auto simp: is_empty_def)
  from info f(3) obtain r where i: "info = stock_info cat f r" by auto
  have six: "take 6 (map fst info) = common_fields"
    unfolding i stock_info_fields by (simp add: common_fields_def)
  from run_triggers_some[OF rt] show ?thesis
  proof (elim disjE exE conjE)
    fix r1 r2 r3
    assume ts: "ts = [(MorningVolumeSurge, r1), (MorningGapUpMomentum, r2), (MorningValueToCap, r3)]"
      and t1: "trigger_morning_volume_surge ?nm ?s prev 10 = Inr r1"
      and t2: "trigger_morning_gap_up_momentum ?nm ?s prev 15 = Inr r2"
      and t3: "trigger_morning_value_to_cap_ratio ?nm ?s prev cap 10 = Inr r3"
    have a: "cat = MorningVolumeSurge \<longrightarrow> map fst info = common_fields @ [''volume_increase'']"
    proof
      assume c: "cat = MorningVolumeSurge"
      with ts have g: "get_table ts cat = r1" by (simp add: get_table_def)
      from columns_trigger_morning_volume_surge[OF cs t1] ne g cf
      show "map fst info = common_fields @ [''volume_increase'']"
        unfolding i stock_info_fields using c by simp
    qed
    have b: "cat = MorningGapUpMomentum \<longrightarrow> map fst info = common_fields @ [''gap_rate'']"
    proof
      assume c: "cat = MorningGapUpMomentum"
      with ts have g: "get_table ts cat = r2" by (simp add: get_table_def)
      from columns_trigger_morning_gap_up_momentum[OF cs t2] ne g cf
      show "map fst info = common_fields @ [''gap_rate'']"
        unfolding i stock_info_fields using c by simp
    qed
    have c: "cat = MorningValueToCap \<longrightarrow>
            map fst info = common_fields @ [''trade_value_ratio'', ''market_cap'']"
    proof
      assume c: "cat = MorningValueToCap"
      with ts have g: "get_table ts cat = r3" by (simp add: get_table_def)
      from columns_trigger_morning_value_to_cap_ratio[OF cs t3] ne g cf
      show "map fst info = common_fields @ [''trade_value_ratio'', ''market_cap'']"
        unfolding i stock_info_fields using c by simp
    qed
    have d: "cat \<noteq> AfternoonDailyRiseTop \<and> cat \<noteq> AfternoonClosingStrength"
      using ne ts by (auto simp: get_table_def is_empty_empty_frame)
    from six a b c d show ?thesis by simp
  next
    fix r1 r2 r3
    assume ts: "ts = [(AfternoonDailyRiseTop, r1), (AfternoonClosingStrength, r2),
                            (AfternoonVolumeSurgeFlat, r3)]"
      and t1: "trigger_afternoon_daily_rise_top ?nm ?s prev 15 = Inr r1"
      and t2: "trigger_afternoon_closing_strength ?nm ?s prev 15 = Inr r2"
    have a: "cat = AfternoonDailyRiseTop \<longrightarrow> map fst info = common_fields"
    proof
      assume c: "cat = AfternoonDailyRiseTop"
      with ts have g: "get_table ts cat = r1" by (simp add: get_table_def)
      from columns_trigger_afternoon_daily_rise_top[OF cs t1] ne g cf
      show "map fst info = common_fields"
        unfolding i stock_info_fields using c by simp
    qed
    have b: "cat = AfternoonClosingStrength \<longrightarrow> map fst info = common_fields @ [''closing_strength'']"
    proof
      assume c: "cat = AfternoonClosingStrength"
      with ts have g: "get_table ts cat = r2" by (simp add: get_table_def)
      from columns_trigger_afternoon_closing_strength[OF cs t2] ne g cf
      show "map fst info = common_fields @ [''closing_strength'']"
        unfolding i stock_info_fields using c by simp
    qed
    have d: "cat \<noteq> MorningVolumeSurge \<and> cat \<noteq> MorningGapUpMomentum \<and> cat \<noteq> MorningValueToCap"
      using ne ts by (auto simp: get_table_def is_empty_empty_frame)
    from six a b d show ?thesis by simp
  qed
qed

theorem record_fields_by_category_witness:
  "\<exists>doc recs info.
      written (run_batch (example_api all_names) example_day_before ''20240105''
                 ''2024-01-05T09:10:00'' ''morning'' (Some ''out.json'')) = Some doc
    \<and> (MorningVolumeSurge, recs) \<in> set (doc_free doc) \<and> info \<in> set recs
    \<and> map fst info = common_fields @ [''volume_increase'']"
proof -
  let ?R = "run_batch (example_api all_names) example_day_before ''20240105''
              ''2024-01-05T09:10:00'' ''morning'' (Some ''out.json'')"
  have "map_option (record_fields \<circ> doc_free) (written ?R)
          = Some [(MorningVolumeSurge, [common_fields @ [''volume_increase'']])]"
    by code_simp
  then obtain doc where doc: "written ?R = Some doc"
    and rf: "record_fields (doc_free doc)
               = [(MorningVolumeSurge, [common_fields @ [''volume_increase'']])]"
    by (cases "written ?R") auto
  from rf obtain recs info where m: "(MorningVolumeSurge, recs) \<in> set (doc_free doc)"
    and i: "info \<in> set recs"
    by (auto simp: record_fields_def map_eq_Cons_conv)
  have prov: "\<forall>d. columns (get_market_ohlcv_by_ticker (example_api all_names) d) = []"
    by (simp add: example_api_def today_snapshot_def earlier_snapshot_def)
  from m have e: "(MorningVolumeSurge, recs) \<in> set (doc_free doc) \<union> set (doc_premium doc)"
    by simp
  from record_fields_by_category[OF prov doc e i]
  have "map fst info = common_fields @ [''volume_increase'']" by simp
  with doc m i show ?thesis by blast
qed

text \<open>
  Claim C7 as stated fails: in an afternoon batch over the example market the record of
  the daily-rise category has the six common fields and no category-specific one, and
  so has the record of the category for volume surges without a price move.
\<close>

theorem daily_rise_record_without_specific_field:
  "map_option (record_fields \<circ> doc_free)
     (written (run_batch (example_api all_names) example_day_before ''20240105''
                 ''2024-01-05T18:00:00'' ''afternoon'' (Some ''out.json'')))
     = Some [(AfternoonDailyRiseTop,
              [[''code'', ''name'', ''current_price'', ''change_rate'', ''volume'', ''trade_value'']])]
   \<and> map_option (record_fields \<circ> doc_premium)
     (written (run_batch (example_api all_names) example_day_before ''20240105''
                 ''2024-01-05T18:00:00'' ''afternoon'' (Some ''out.json'')))
     = Some [(AfternoonDailyRiseTop,
              [[''code'', ''name'', ''current_price'', ''change_rate'', ''volume'', ''trade_value'']]),
             (AfternoonClosingStrength,
              [[''code'', ''name'', ''current_price'', ''change_rate'', ''volume'', ''trade_value'',
                ''closing_strength'']]),
             (AfternoonVolumeSurgeFlat,
              [[''code'', ''name'', ''current_price'', ''change_rate'', ''volume'', ''trade_value'']])]"
  by code_simp

section \<open>Properties of the selection after scoring\<close>













lemma scores_set_col:
  "c \<noteq> CompositeScore \<Longrightarrow> scores (rows (set_col c f df)) = scores (rows df)"
  by (simp add: scores_def set_col_def comp_def map_of_dict_set)
















end
